theory Spec2Isabelle
  imports Complex_Main "HOL-Library.AList"
begin

section \<open>Python values\<close>

text \<open>
  The collector handles parsed YAML (the configuration) and parsed JSON (the responses of
  the search client), and builds dictionaries from them. A dictionary is an association
  list in insertion order. Its keys are hashable scalars.
\<close>

datatype pykey = KNone | KBool bool | KInt int | KFloat real | KStr string

datatype pyval =
    PNone
  | PBool bool
  | PInt int
  | PFloat real
  | PStr string
  | PList "pyval list"
  | PDict "(pykey \<times> pyval) list"

type_synonym pydict = "(pykey \<times> pyval) list"

text \<open>Exceptions carry their class and the text that \<open>str(e)\<close> yields.\<close>

datatype exn_kind =
  KeyError | IndexError | TypeError | AttributeError | ValueError | OSError | ClientError

datatype pyexn = Exn exn_kind string

fun py_str_exn :: "pyexn \<Rightarrow> string" where
  "py_str_exn (Exn k msg) = msg"

text \<open>A name in single quotes, as Python's messages and \<open>repr\<close> of a string show it.\<close>

definition quoted :: "string \<Rightarrow> string" where
  "quoted s = [CHR 0x27] @ s @ [CHR 0x27]"

definition bind_exn :: "pyexn + 'a \<Rightarrow> ('a \<Rightarrow> pyexn + 'b) \<Rightarrow> pyexn + 'b" where
  "bind_exn r f = (case r of Inl e \<Rightarrow> Inl e | Inr v \<Rightarrow> f v)"

text \<open>A loop that builds a list, one element per item: the first exception ends it.\<close>

fun collect_each :: "('a \<Rightarrow> pyexn + 'b) \<Rightarrow> 'a list \<Rightarrow> pyexn + 'b list" where
  "collect_each f [] = Inr []"
| "collect_each f (x # xs) =
     bind_exn (f x) (\<lambda>y. bind_exn (collect_each f xs) (\<lambda>ys. Inr (y # ys)))"

fun type_name :: "pyval \<Rightarrow> string" where
  "type_name PNone = ''NoneType''"
| "type_name (PBool b) = ''bool''"
| "type_name (PInt i) = ''int''"
| "type_name (PFloat r) = ''float''"
| "type_name (PStr s) = ''str''"
| "type_name (PList xs) = ''list''"
| "type_name (PDict d) = ''dict''"

text \<open>Truth value of an object, as \<open>if x:\<close> and \<open>not x\<close> test it.\<close>

fun truthy :: "pyval \<Rightarrow> bool" where
  "truthy PNone = False"
| "truthy (PBool b) = b"
| "truthy (PInt i) = (i \<noteq> 0)"
| "truthy (PFloat r) = (r \<noteq> 0)"
| "truthy (PStr s) = (s \<noteq> [])"
| "truthy (PList xs) = (xs \<noteq> [])"
| "truthy (PDict d) = (d \<noteq> [])"

subsection \<open>Dictionaries\<close>

text \<open>
  Python compares numeric keys by value (\<open>True == 1 == 1.0\<close>) and all other keys with
  themselves only. Looking a key up finds the entry with an equal key; assigning to a key
  replaces the value of that entry, whose own key stays, or appends a new entry.
\<close>

fun key_num :: "pykey \<Rightarrow> real option" where
  "key_num (KBool b) = Some (if b then 1 else 0)"
| "key_num (KInt i) = Some (of_int i)"
| "key_num (KFloat r) = Some r"
| "key_num k = None"

definition key_eq :: "pykey \<Rightarrow> pykey \<Rightarrow> bool" where
  "key_eq a b = (case key_num a of Some x \<Rightarrow> key_num b = Some x | None \<Rightarrow> a = b)"

fun dict_lookup :: "pydict \<Rightarrow> pykey \<Rightarrow> pyval option" where
  "dict_lookup [] k = None"
| "dict_lookup ((k', v) # d) k = (if key_eq k' k then Some v else dict_lookup d k)"

fun dict_update :: "pykey \<Rightarrow> pyval \<Rightarrow> pydict \<Rightarrow> pydict" where
  "dict_update k v [] = [(k, v)]"
| "dict_update k v ((k', v') # d) =
     (if key_eq k' k then (k', v) # d else (k', v') # dict_update k v d)"

text \<open>\<open>k in d\<close>, \<open>d.get(k, default)\<close> and \<open>d[k] = v\<close> for a string key.\<close>

definition dget :: "pydict \<Rightarrow> string \<Rightarrow> pyval option" where
  "dget d k = dict_lookup d (KStr k)"

definition has_key :: "pydict \<Rightarrow> string \<Rightarrow> bool" where
  "has_key d k = (dget d k \<noteq> None)"

definition get_default :: "pydict \<Rightarrow> string \<Rightarrow> pyval \<Rightarrow> pyval" where
  "get_default d k dflt = (case dget d k of Some v \<Rightarrow> v | None \<Rightarrow> dflt)"

definition dset :: "pydict \<Rightarrow> string \<Rightarrow> pyval \<Rightarrow> pydict" where
  "dset d k v = dict_update (KStr k) v d"

text \<open>The key of a dictionary entry, for an object used as a key; lists and
  dictionaries are unhashable.\<close>

fun key_of :: "pyval \<Rightarrow> pyexn + pykey" where
  "key_of PNone = Inr KNone"
| "key_of (PBool b) = Inr (KBool b)"
| "key_of (PInt i) = Inr (KInt i)"
| "key_of (PFloat r) = Inr (KFloat r)"
| "key_of (PStr s) = Inr (KStr s)"
| "key_of (PList xs) = Inl (Exn TypeError (''unhashable type: '' @ quoted ''list''))"
| "key_of (PDict d) = Inl (Exn TypeError (''unhashable type: '' @ quoted ''dict''))"

text \<open>The object a key stands for when a dictionary is iterated.\<close>

fun key_val :: "pykey \<Rightarrow> pyval" where
  "key_val KNone = PNone"
| "key_val (KBool b) = PBool b"
| "key_val (KInt i) = PInt i"
| "key_val (KFloat r) = PFloat r"
| "key_val (KStr s) = PStr s"

subsection \<open>Operations on objects of any type\<close>

text \<open>\<open>obj.get(k, default)\<close>: only a dictionary has the method.\<close>

fun py_get :: "pyval \<Rightarrow> string \<Rightarrow> pyval \<Rightarrow> pyexn + pyval" where
  "py_get (PDict d) k dflt = Inr (get_default d k dflt)"
| "py_get v k dflt =
     Inl (Exn AttributeError
       (quoted (type_name v) @ '' object has no attribute '' @ quoted ''get''))"

text \<open>\<open>obj[k]\<close> for a string \<open>k\<close>.\<close>

fun py_subscript :: "pyval \<Rightarrow> string \<Rightarrow> pyexn + pyval" where
  "py_subscript (PDict d) k =
     (case dget d k of Some v \<Rightarrow> Inr v | None \<Rightarrow> Inl (Exn KeyError (quoted k)))"
| "py_subscript (PList xs) k =
     Inl (Exn TypeError ''list indices must be integers or slices, not str'')"
| "py_subscript (PStr s) k =
     Inl (Exn TypeError (''string indices must be integers, not '' @ quoted ''str''))"
| "py_subscript v k =
     Inl (Exn TypeError (quoted (type_name v) @ '' object is not subscriptable''))"

text \<open>\<open>len(obj)\<close> and the elements that \<open>for x in obj\<close> visits.\<close>

fun py_len :: "pyval \<Rightarrow> pyexn + nat" where
  "py_len (PList xs) = Inr (length xs)"
| "py_len (PStr s) = Inr (length s)"
| "py_len (PDict d) = Inr (length d)"
| "py_len v = Inl (Exn TypeError (''object of type '' @ quoted (type_name v) @ '' has no len()''))"

fun py_iter :: "pyval \<Rightarrow> pyexn + pyval list" where
  "py_iter (PList xs) = Inr xs"
| "py_iter (PStr s) = Inr (map (\<lambda>c. PStr [c]) s)"
| "py_iter (PDict d) = Inr (map (key_val \<circ> fst) d)"
| "py_iter v = Inl (Exn TypeError (quoted (type_name v) @ '' object is not iterable''))"

text \<open>
  \<open>xs[:k]\<close> on a sequence of length \<open>n\<close>: the first \<open>k\<close> elements for \<open>k \<ge> 0\<close>, and all but
  the last \<open>-k\<close> for \<open>k < 0\<close>.
\<close>

definition slice_to :: "'a list \<Rightarrow> int \<Rightarrow> 'a list" where
  "slice_to xs k = (if 0 \<le> k then take (nat k) xs else take (length xs - nat (- k)) xs)"

text \<open>The stop index of a slice: \<open>None\<close> for no bound, an int (a bool is one).\<close>

fun slice_index :: "pyval \<Rightarrow> pyexn + int option" where
  "slice_index PNone = Inr None"
| "slice_index (PInt k) = Inr (Some k)"
| "slice_index (PBool b) = Inr (Some (if b then 1 else 0))"
| "slice_index v =
     Inl (Exn TypeError ''slice indices must be integers or None or have an __index__ method'')"

text \<open>\<open>obj[:count]\<close>. Lists and strings can be sliced; a dictionary rejects the slice
  as a key, and the other types are not subscriptable.\<close>

fun py_slice_to :: "pyval \<Rightarrow> pyval \<Rightarrow> pyexn + pyval" where
  "py_slice_to (PList xs) count =
     bind_exn (slice_index count)
       (\<lambda>k. Inr (PList (case k of None \<Rightarrow> xs | Some k \<Rightarrow> slice_to xs k)))"
| "py_slice_to (PStr s) count =
     bind_exn (slice_index count)
       (\<lambda>k. Inr (PStr (case k of None \<Rightarrow> s | Some k \<Rightarrow> slice_to s k)))"
| "py_slice_to (PDict d) count = Inl (Exn TypeError (''unhashable type: '' @ quoted ''slice''))"
| "py_slice_to v count =
     Inl (Exn TypeError (quoted (type_name v) @ '' object is not subscriptable''))"

section \<open>The collector and its surroundings\<close>

text \<open>
  The search client, the clock and the file system are outside the program. The client
  is a function of the time and the request: it gives the response dictionary or raises.
  \<open>isoformat\<close> renders a time the way \<open>datetime.now().isoformat()\<close> does; \<open>opens\<close> and
  \<open>opens_fd\<close> give the exception of opening a path or a file descriptor for writing, if
  there is one. The world is what the program changes: the clock (\<open>time.sleep\<close> advances
  it), the requests sent, the files written, each file holding the value that \<open>json.dump\<close>
  serialised into it, and the values written through file descriptors.
  Log messages are not part of the model.
\<close>

record env =
  get_dict :: "nat \<Rightarrow> pydict \<Rightarrow> pyexn + pydict"
  isoformat :: "nat \<Rightarrow> string"
  opens :: "string \<Rightarrow> pyexn option"
  opens_fd :: "int \<Rightarrow> pyexn option"

record world =
  clock :: nat
  requests :: "pydict list"
  files :: "(string \<times> pyval) list"
  fd_written :: "(int \<times> pyval) list"

record collector =
  config :: pydict
  api_key :: pyval

definition now_iso :: "env \<Rightarrow> world \<Rightarrow> pyval" where
  "now_iso ev w = PStr (isoformat ev (clock w))"

definition sleep :: "nat \<Rightarrow> world \<Rightarrow> world" where
  "sleep n w = w\<lparr>clock := clock w + n\<rparr>"

definition source_name :: pyval where
  "source_name = PStr ''SerpAPI Google Trends''"

text \<open>\<open>TrendsCollector.__init__\<close>, from the parsed configuration file.\<close>

fun init_collector :: "pyval \<Rightarrow> pyexn + collector" where
  "init_collector (PDict d) =
     (let k = get_default d ''serpapi_key'' PNone
      in if \<not> truthy k then Inl (Exn ValueError ''Brak serpapi_key w pliku konfiguracyjnym!'')
         else Inr \<lparr>config = d, api_key = k\<rparr>)"
| "init_collector v =
     Inl (Exn AttributeError
       (quoted (type_name v) @ '' object has no attribute '' @ quoted ''get''))"

section \<open>Trending searches\<close>

text \<open>One item of the response as a trend record; \<open>trend.get\<close> needs a dictionary.\<close>

fun trend_record :: "pyval \<Rightarrow> pyexn + pyval" where
  "trend_record (PDict trend) =
     Inr (PDict
       [(KStr ''query'', get_default trend ''query'' (PStr [])),
        (KStr ''search_volume'', get_default trend ''search_volume'' (PInt 0)),
        (KStr ''increase_percentage'', get_default trend ''increase_percentage'' (PInt 0)),
        (KStr ''active'', get_default trend ''active'' (PBool True)),
        (KStr ''categories'', get_default trend ''categories'' (PList [])),
        (KStr ''related_queries'', get_default trend ''trend_breakdown'' (PList [])),
        (KStr ''start_timestamp'', get_default trend ''start_timestamp'' (PInt 0))])"
| "trend_record v = py_get v ''query'' (PStr [])"

text \<open>
  Lines 61 to 93 of \<open>collect_trending_searches\<close>: what is made of the response
  \<open>results\<close>, with \<open>stamp\<close> the collection time.
\<close>

definition normalize_trending ::
  "collector \<Rightarrow> pyval \<Rightarrow> pyval \<Rightarrow> pyval \<Rightarrow> pydict \<Rightarrow> pyexn + pydict" where
  "normalize_trending self region_code region_name stamp results =
     (let trending_data =
            [(KStr ''region_name'', region_name),
             (KStr ''region_code'', region_code),
             (KStr ''collection_time'', stamp),
             (KStr ''trending_searches'', PList []),
             (KStr ''source'', source_name),
             (KStr ''note'', PStr ''Global trending searches (region-specific may not be available)'')]
      in case dget results ''trending_searches'' of
           Some found \<Rightarrow>
             bind_exn (py_get (get_default (config self) ''trending_searches'' (PDict []))
                         ''count'' (PInt 20)) (\<lambda>count.
             bind_exn (py_slice_to found count) (\<lambda>trending_list.
             bind_exn (py_iter trending_list) (\<lambda>items.
             bind_exn (collect_each trend_record items) (\<lambda>recs.
               Inr (dset trending_data ''trending_searches'' (PList recs))))))
         | None \<Rightarrow>
             (let with_error = dset trending_data ''error'' (PStr ''Brak danych w odpowiedzi SerpAPI'')
              in Inr (case dget results ''error'' of
                        Some api_err \<Rightarrow> dset with_error ''api_error'' api_err
                      | None \<Rightarrow> with_error)))"

text \<open>The request of the trending engine for a region.\<close>

definition trending_params :: "collector \<Rightarrow> pyval \<Rightarrow> pydict" where
  "trending_params self region_code =
     [(KStr ''api_key'', api_key self),
      (KStr ''engine'', PStr ''google_trends_trending_now''),
      (KStr ''geo'', region_code)]"

text \<open>The body of the \<open>try\<close>: the call, then the normalization.\<close>

definition trending_try ::
  "env \<Rightarrow> collector \<Rightarrow> pyval \<Rightarrow> pyval \<Rightarrow> world \<Rightarrow> (pyexn + pydict) \<times> world" where
  "trending_try ev self region_code region_name w =
     (let params = trending_params self region_code;
          w1 = w\<lparr>requests := requests w @ [params]\<rparr>
      in (bind_exn (get_dict ev (clock w) params)
            (normalize_trending self region_code region_name (now_iso ev w1)), w1))"

text \<open>\<open>collect_trending_searches\<close>: \<open>except Exception\<close> turns every exception of the body
  into a result.\<close>

definition collect_trending_searches ::
  "env \<Rightarrow> collector \<Rightarrow> pyval \<Rightarrow> pyval \<Rightarrow> world \<Rightarrow> pydict \<times> world" where
  "collect_trending_searches ev self region_code region_name w =
     (case trending_try ev self region_code region_name w of
        (Inr trending_data, w1) \<Rightarrow> (trending_data, w1)
      | (Inl e, w1) \<Rightarrow>
          ([(KStr ''region_name'', region_name),
            (KStr ''region_code'', region_code),
            (KStr ''error'', PStr (py_str_exn e)),
            (KStr ''collection_time'', now_iso ev w1),
            (KStr ''source'', source_name)], w1))"

section \<open>The run over the regions\<close>

text \<open>
  The loop of \<open>collect_all_trends\<close>, at index \<open>i\<close> of \<open>n\<close> regions, with the results
  appended so far. An exception of \<open>region['name']\<close> or \<open>region['code']\<close> leaves the loop
  and the function.
\<close>

fun regions_loop ::
  "env \<Rightarrow> collector \<Rightarrow> bool \<Rightarrow> nat \<Rightarrow> nat \<Rightarrow> pyval list \<Rightarrow> pyval list \<Rightarrow> world
     \<Rightarrow> (pyexn + pyval list) \<times> world" where
  "regions_loop ev self enabled n i [] acc w = (Inr acc, w)"
| "regions_loop ev self enabled n i (region # rest) acc w =
     (case py_subscript region ''name'' of
        Inl e \<Rightarrow> (Inl e, w)
      | Inr region_name \<Rightarrow>
     (case py_subscript region ''code'' of
        Inl e \<Rightarrow> (Inl e, w)
      | Inr region_code \<Rightarrow>
     (let (acc1, w1) =
            (if enabled
             then (case collect_trending_searches ev self region_code region_name w of
                     (trending_data, w') \<Rightarrow> (acc @ [PDict trending_data], sleep 2 w'))
             else (acc, w));
          w2 = (if int i < int n - 1 then sleep 3 w1 else w1)
      in regions_loop ev self enabled n (i + 1) rest acc1 w2)))"

definition collect_all_trends ::
  "env \<Rightarrow> collector \<Rightarrow> world \<Rightarrow> (pyexn + pydict) \<times> world" where
  "collect_all_trends ev self w =
     (case py_subscript (PDict (config self)) ''keywords'' of
        Inl e \<Rightarrow> (Inl e, w)
      | Inr keywords \<Rightarrow>
     (case py_subscript (PDict (config self)) ''regions'' of
        Inl e \<Rightarrow> (Inl e, w)
      | Inr regions \<Rightarrow>
     (case py_get (get_default (config self) ''trending_searches'' (PDict []))
             ''enabled'' (PBool False) of
        Inl e \<Rightarrow> (Inl e, w)
      | Inr trending_enabled \<Rightarrow>
     (case py_len regions of
        Inl e \<Rightarrow> (Inl e, w)
      | Inr n \<Rightarrow>
     (let metadata =
            [(KStr ''collection_time'', now_iso ev w),
             (KStr ''keywords'', keywords),
             (KStr ''total_regions'', PInt (int n)),
             (KStr ''timeframe'', get_default (config self) ''timeframe'' (PStr ''today 3-m'')),
             (KStr ''trending_searches_enabled'', trending_enabled),
             (KStr ''source'', source_name),
             (KStr ''api_usage_note'', PStr ''Each request uses your SerpAPI quota'')]
      in case py_iter regions of
           Inl e \<Rightarrow> (Inl e, w)
         | Inr rs \<Rightarrow>
             (case regions_loop ev self (truthy trending_enabled) n 0 rs [] w of
                (Inl e, w') \<Rightarrow> (Inl e, w')
              | (Inr collected, w') \<Rightarrow>
                  (Inr [(KStr ''metadata'', PDict metadata),
                        (KStr ''trending_searches_data'', PList collected)], w')))))))"

section \<open>The simplified projection\<close>

text \<open>Decimal digits of a natural number, for \<open>str(KeyError(i))\<close>.\<close>

function show_nat :: "nat \<Rightarrow> string" where
  "show_nat n =
     (if n < 10 then [char_of (48 + n)] else show_nat (n div 10) @ [char_of (48 + n mod 10)])"
  by pat_completeness auto
termination
  by (relation "measure id") auto

text \<open>\<open>obj[i]\<close> for an index \<open>i \<ge> 0\<close>.\<close>

fun py_index :: "pyval \<Rightarrow> nat \<Rightarrow> pyexn + pyval" where
  "py_index (PList xs) i =
     (if i < length xs then Inr (xs ! i) else Inl (Exn IndexError ''list index out of range''))"
| "py_index (PStr s) i =
     (if i < length s then Inr (PStr [s ! i])
      else Inl (Exn IndexError ''string index out of range''))"
| "py_index (PDict d) i =
     (case dict_lookup d (KInt (int i)) of
        Some v \<Rightarrow> Inr v
      | None \<Rightarrow> Inl (Exn KeyError (show_nat i)))"
| "py_index v i =
     Inl (Exn TypeError (quoted (type_name v) @ '' object is not subscriptable''))"

text \<open>
  The \<open>category\<close> of a trend:
  \<open>trend.get('categories', [{}])[0].get('name', 'Unknown') if trend.get('categories') else 'Unknown'\<close>.
\<close>

definition category_of :: "pydict \<Rightarrow> pyexn + pyval" where
  "category_of trend =
     (if truthy (get_default trend ''categories'' PNone)
      then bind_exn (py_index (get_default trend ''categories'' (PList [PDict []])) 0)
             (\<lambda>first. py_get first ''name'' (PStr ''Unknown''))
      else Inr (PStr ''Unknown''))"

fun simple_query :: "pyval \<Rightarrow> pyexn + pyval" where
  "simple_query (PDict trend) =
     bind_exn (category_of trend) (\<lambda>category.
       Inr (PDict
         [(KStr ''query'', get_default trend ''query'' PNone),
          (KStr ''search_volume'', get_default trend ''search_volume'' PNone),
          (KStr ''increase_percentage'', get_default trend ''increase_percentage'' PNone),
          (KStr ''category'', category)]))"
| "simple_query v = py_get v ''query'' PNone"

fun simple_region :: "pyval \<Rightarrow> pyexn + pyval" where
  "simple_region (PDict region_data) =
     bind_exn (py_iter (get_default region_data ''trending_searches'' (PList []))) (\<lambda>trends.
     bind_exn (collect_each simple_query trends) (\<lambda>trending_queries.
       Inr (PDict
         [(KStr ''region_name'', get_default region_data ''region_name'' PNone),
          (KStr ''region_code'', get_default region_data ''region_code'' PNone),
          (KStr ''trending_queries'', PList trending_queries)])))"
| "simple_region v = py_get v ''region_name'' PNone"

definition create_simple_format :: "pydict \<Rightarrow> pyexn + pydict" where
  "create_simple_format data =
     bind_exn (py_get (get_default data ''metadata'' (PDict [])) ''collection_time'' PNone)
       (\<lambda>collection_time.
     bind_exn (py_iter (get_default data ''trending_searches_data'' (PList []))) (\<lambda>region_datas.
     bind_exn (collect_each simple_region region_datas) (\<lambda>regions.
       Inr [(KStr ''collection_time'', collection_time),
            (KStr ''regions'', PList regions)])))"

section \<open>Writing the output\<close>

text \<open>
  \<open>s.replace(old, new)\<close>: every occurrence of \<open>old\<close>, from the left, without overlap.
  For an empty \<open>old\<close>, \<open>new\<close> goes before every character and at the end.
\<close>

function str_replace :: "string \<Rightarrow> string \<Rightarrow> string \<Rightarrow> string" where
  "str_replace [] old new = (if old = [] then new else [])"
| "str_replace (c # cs) old new =
     (if old = [] then new @ c # str_replace cs old new
      else if take (length old) (c # cs) = old
      then new @ str_replace (drop (length old) (c # cs)) old new
      else c # str_replace cs old new)"
  by pat_completeness auto
termination
  by (relation "measure (\<lambda>(s, old, new). length s)") auto

fun py_replace :: "pyval \<Rightarrow> string \<Rightarrow> string \<Rightarrow> pyexn + pyval" where
  "py_replace (PStr s) old new = Inr (PStr (str_replace s old new))"
| "py_replace v old new =
     Inl (Exn AttributeError
       (quoted (type_name v) @ '' object has no attribute '' @ quoted ''replace''))"

definition simple_filename_of :: "string \<Rightarrow> string" where
  "simple_filename_of filename = str_replace filename ''.json'' ''_simple.json''"

text \<open>
  \<open>with open(filename, 'w') as f: json.dump(value, f, ...)\<close>. The environment decides
  whether a path or a file descriptor opens. A string names a path. An integer names a
  file descriptor of the process, and a bool is the integer 1 or 0; the value is written
  through it. Every other object is refused.
\<close>

definition write_fd :: "env \<Rightarrow> int \<Rightarrow> pyval \<Rightarrow> world \<Rightarrow> (pyexn + unit) \<times> world" where
  "write_fd ev fd v w =
     (if fd < 0 then (Inl (Exn ValueError ''negative file descriptor''), w)
      else case opens_fd ev fd of
             Some e \<Rightarrow> (Inl e, w)
           | None \<Rightarrow> (Inr (), w\<lparr>fd_written := fd_written w @ [(fd, v)]\<rparr>))"

fun write_json :: "env \<Rightarrow> pyval \<Rightarrow> pyval \<Rightarrow> world \<Rightarrow> (pyexn + unit) \<times> world" where
  "write_json ev (PStr path) v w =
     (case opens ev path of
        Some e \<Rightarrow> (Inl e, w)
      | None \<Rightarrow> (Inr (), w\<lparr>files := AList.update path v (files w)\<rparr>))"
| "write_json ev (PInt fd) v w = write_fd ev fd v w"
| "write_json ev (PBool b) v w = write_fd ev (if b then 1 else 0) v w"
| "write_json ev f v w =
     (Inl (Exn TypeError (''expected str, bytes or os.PathLike object, not '' @ type_name f)), w)"

text \<open>\<open>save_to_json\<close>; \<open>PNone\<close> for the file name is the default argument. The handler
  logs the exception and raises it again.\<close>

definition save_to_json ::
  "env \<Rightarrow> collector \<Rightarrow> pydict \<Rightarrow> pyval \<Rightarrow> world \<Rightarrow> (pyexn + unit) \<times> world" where
  "save_to_json ev self data filename0 w =
     (let filename =
            (if filename0 = PNone
             then get_default (config self) ''output_file'' (PStr ''trends_data.json'')
             else filename0)
      in case write_json ev filename (PDict data) w of
           (Inl e, w1) \<Rightarrow> (Inl e, w1)
         | (Inr u, w1) \<Rightarrow>
        (case create_simple_format data of
           Inl e \<Rightarrow> (Inl e, w1)
         | Inr simple_data \<Rightarrow>
        (case py_replace filename ''.json'' ''_simple.json'' of
           Inl e \<Rightarrow> (Inl e, w1)
         | Inr simple_filename \<Rightarrow> write_json ev simple_filename (PDict simple_data) w1)))"

text \<open>\<open>run\<close>: collect, save, count the requests for the log, return the data.\<close>

definition run :: "env \<Rightarrow> collector \<Rightarrow> world \<Rightarrow> (pyexn + pydict) \<times> world" where
  "run ev self w =
     (case collect_all_trends ev self w of
        (Inl e, w1) \<Rightarrow> (Inl e, w1)
      | (Inr data, w1) \<Rightarrow>
     (case save_to_json ev self data PNone w1 of
        (Inl e, w2) \<Rightarrow> (Inl e, w2)
      | (Inr u, w2) \<Rightarrow>
     (case py_len (get_default (config self) ''regions'' (PList [])) of
        Inl e \<Rightarrow> (Inl e, w2)
      | Inr total_requests \<Rightarrow> (Inr data, w2))))"

section \<open>Interest over time\<close>

text \<open>
  \<open>",".join(keywords)\<close> needs an iterable of strings; once it has passed, the keywords
  are these strings.
\<close>

fun str_item :: "nat \<Rightarrow> pyval \<Rightarrow> pyexn + string" where
  "str_item i (PStr s) = Inr s"
| "str_item i v =
     Inl (Exn TypeError (''sequence item '' @ show_nat i @ '': expected str instance, ''
                         @ type_name v @ '' found''))"

fun str_items :: "nat \<Rightarrow> pyval list \<Rightarrow> pyexn + string list" where
  "str_items i [] = Inr []"
| "str_items i (v # vs) =
     bind_exn (str_item i v) (\<lambda>s. bind_exn (str_items (i + 1) vs) (\<lambda>ss. Inr (s # ss)))"

definition keyword_strings :: "pyval \<Rightarrow> pyexn + string list" where
  "keyword_strings keywords =
     (case py_iter keywords of
        Inl e \<Rightarrow> Inl (Exn TypeError ''can only join an iterable'')
      | Inr items \<Rightarrow> str_items 0 items)"

fun join_with :: "string \<Rightarrow> string list \<Rightarrow> string" where
  "join_with sep [] = []"
| "join_with sep [s] = s"
| "join_with sep (s # rest) = s @ sep @ join_with sep rest"

text \<open>\<open>geo_mapping.get(region_code, region_code)\<close>: the table maps each of its codes to
  itself, so the result is the code; looking it up hashes it.\<close>

definition geo_mapping :: pydict where
  "geo_mapping =
     [(KStr ''PL'', PStr ''PL''), (KStr ''US'', PStr ''US''), (KStr ''DE'', PStr ''DE''),
      (KStr ''GB'', PStr ''GB''), (KStr ''FR'', PStr ''FR'')]"

definition geo_code_of :: "pyval \<Rightarrow> pyexn + pyval" where
  "geo_code_of region_code =
     bind_exn (key_of region_code) (\<lambda>k.
       Inr (case dict_lookup geo_mapping k of Some code \<Rightarrow> code | None \<Rightarrow> region_code))"

text \<open>\<open>sub in s\<close> for strings, and \<open>keyword in obj\<close>.\<close>

fun is_substring :: "string \<Rightarrow> string \<Rightarrow> bool" where
  "is_substring sub [] = (sub = [])"
| "is_substring sub (c # cs) = (take (length sub) (c # cs) = sub \<or> is_substring sub cs)"

fun py_contains :: "pyval \<Rightarrow> string \<Rightarrow> pyexn + bool" where
  "py_contains (PDict d) k = Inr (has_key d k)"
| "py_contains (PList xs) k = Inr (PStr k \<in> set xs)"
| "py_contains (PStr s) k = Inr (is_substring k s)"
| "py_contains v k =
     Inl (Exn TypeError (''argument of type '' @ quoted (type_name v) @ '' is not iterable''))"

text \<open>
  The inner loop for one date: \<open>for i, keyword in enumerate(keywords)\<close>, filling the
  dictionary of the date.
\<close>

fun zip_values :: "pyval \<Rightarrow> nat \<Rightarrow> string list \<Rightarrow> pydict \<Rightarrow> pyexn + pydict" where
  "zip_values vals i [] row = Inr row"
| "zip_values vals i (keyword # rest) row =
     bind_exn (py_len vals) (\<lambda>n.
       if i < n
       then bind_exn (py_index vals i) (\<lambda>entry.
            bind_exn (py_get entry ''value'' (PInt 0)) (\<lambda>x.
              zip_values vals (i + 1) rest (dset row keyword x)))
       else zip_values vals (i + 1) rest row)"

text \<open>The loop over the timeline, filling \<open>interest_data['interest_over_time']\<close>.\<close>

fun timeline_loop :: "string list \<Rightarrow> pyval list \<Rightarrow> pydict \<Rightarrow> pyexn + pydict" where
  "timeline_loop keywords [] iot = Inr iot"
| "timeline_loop keywords (data_point # rest) iot =
     bind_exn (py_get data_point ''date'' (PStr [])) (\<lambda>date_str.
     bind_exn (py_get data_point ''values'' (PList [])) (\<lambda>vals.
       if truthy date_str \<and> truthy vals
       then bind_exn (key_of date_str) (\<lambda>date_key.
            bind_exn (zip_values vals 0 keywords []) (\<lambda>row.
              timeline_loop keywords rest (dict_update date_key (PDict row) iot)))
       else timeline_loop keywords rest iot))"

text \<open>The loops over the keywords that copy \<open>related_topics\<close> and \<open>related_queries\<close>.\<close>

fun copy_related :: "pyval \<Rightarrow> string list \<Rightarrow> pydict \<Rightarrow> pyexn + pydict" where
  "copy_related src [] out = Inr out"
| "copy_related src (keyword # rest) out =
     bind_exn (py_contains src keyword) (\<lambda>present.
       if present
       then bind_exn (py_subscript src keyword) (\<lambda>v.
              copy_related src rest (dset out keyword v))
       else copy_related src rest out)"

definition related_of :: "pydict \<Rightarrow> string \<Rightarrow> string list \<Rightarrow> pyexn + pydict" where
  "related_of results field keywords =
     (case dget results field of
        Some src \<Rightarrow> copy_related src keywords []
      | None \<Rightarrow> Inr [])"

text \<open>Lines 131 to 169 of \<open>collect_interest_over_time\<close>: what is made of the response.\<close>

definition normalize_interest ::
  "collector \<Rightarrow> pyval \<Rightarrow> string list \<Rightarrow> pyval \<Rightarrow> pyval \<Rightarrow> pyval \<Rightarrow> pydict \<Rightarrow> pyexn + pydict" where
  "normalize_interest self keywords ks region_code region_name stamp results =
     bind_exn
       (case dget results ''interest_over_time'' of
          Some iot \<Rightarrow>
            bind_exn (py_get iot ''timeline_data'' (PList [])) (\<lambda>timeline.
            bind_exn (py_iter timeline) (\<lambda>points. timeline_loop ks points []))
        | None \<Rightarrow> Inr []) (\<lambda>interest_over_time.
     bind_exn (related_of results ''related_topics'' ks) (\<lambda>related_topics.
     bind_exn (related_of results ''related_queries'' ks) (\<lambda>related_queries.
       Inr [(KStr ''region_name'', region_name),
            (KStr ''region_code'', region_code),
            (KStr ''collection_time'', stamp),
            (KStr ''keywords'', keywords),
            (KStr ''timeframe'', get_default (config self) ''timeframe'' (PStr ''today 3-m'')),
            (KStr ''interest_over_time'', PDict interest_over_time),
            (KStr ''related_topics'', PDict related_topics),
            (KStr ''related_queries'', PDict related_queries),
            (KStr ''source'', source_name)])))"

text \<open>The request of the interest engine.\<close>

definition interest_params :: "collector \<Rightarrow> string list \<Rightarrow> pyval \<Rightarrow> pydict" where
  "interest_params self ks geo_code =
     [(KStr ''api_key'', api_key self),
      (KStr ''engine'', PStr ''google_trends''),
      (KStr ''q'', PStr (join_with '','' ks)),
      (KStr ''geo'', geo_code),
      (KStr ''date'', get_default (config self) ''timeframe'' (PStr ''today 3-m''))]"

text \<open>The body of the \<open>try\<close> and the handler around it.\<close>

definition interest_try ::
  "env \<Rightarrow> collector \<Rightarrow> pyval \<Rightarrow> pyval \<Rightarrow> pyval \<Rightarrow> world \<Rightarrow> (pyexn + pydict) \<times> world" where
  "interest_try ev self keywords region_code region_name w =
     (case geo_code_of region_code of
        Inl e \<Rightarrow> (Inl e, w)
      | Inr geo_code \<Rightarrow>
     (case keyword_strings keywords of
        Inl e \<Rightarrow> (Inl e, w)
      | Inr ks \<Rightarrow>
     (let params = interest_params self ks geo_code;
          w1 = w\<lparr>requests := requests w @ [params]\<rparr>
      in (bind_exn (get_dict ev (clock w) params)
            (normalize_interest self keywords ks region_code region_name (now_iso ev w1)),
          w1))))"

definition collect_interest_over_time ::
  "env \<Rightarrow> collector \<Rightarrow> pyval \<Rightarrow> pyval \<Rightarrow> pyval \<Rightarrow> world \<Rightarrow> pydict \<times> world" where
  "collect_interest_over_time ev self keywords region_code region_name w =
     (case interest_try ev self keywords region_code region_name w of
        (Inr interest_data, w1) \<Rightarrow> (interest_data, w1)
      | (Inl e, w1) \<Rightarrow>
          ([(KStr ''region_name'', region_name),
            (KStr ''region_code'', region_code),
            (KStr ''error'', PStr (py_str_exn e)),
            (KStr ''collection_time'', now_iso ev w1),
            (KStr ''source'', source_name)], w1))"

section \<open>Example inputs\<close>

text \<open>
  A configuration with the regions Poland and Germany, trending collection enabled and
  the given \<open>count\<close>; the response of the specification's example; a client that always
  answers with it and one that always fails. Paths open; file descriptors do not.
\<close>

definition example_regions :: "pyval list" where
  "example_regions =
     [PDict [(KStr ''name'', PStr ''Poland''), (KStr ''code'', PStr ''PL'')],
      PDict [(KStr ''name'', PStr ''Germany''), (KStr ''code'', PStr ''DE'')]]"

definition example_collector :: "int \<Rightarrow> collector" where
  "example_collector k =
     \<lparr>config =
        [(KStr ''serpapi_key'', PStr ''secret''),
         (KStr ''keywords'', PList [PStr ''python'', PStr ''rust'']),
         (KStr ''regions'', PList example_regions),
         (KStr ''trending_searches'', PDict [(KStr ''enabled'', PBool True), (KStr ''count'', PInt k)])],
      api_key = PStr ''secret''\<rparr>"

definition example_items :: "pyval list" where
  "example_items =
     [PDict [(KStr ''query'', PStr ''a''), (KStr ''search_volume'', PInt 10)],
      PDict [(KStr ''query'', PStr ''b'')],
      PDict [(KStr ''query'', PStr ''c'')]]"

definition example_results :: pydict where
  "example_results = [(KStr ''trending_searches'', PList example_items)]"

definition example_env :: env where
  "example_env =
     \<lparr>get_dict = (\<lambda>t params. Inr example_results),
      isoformat = (\<lambda>t. ''2024-01-01T00:00:00''),
      opens = (\<lambda>path. None),
      opens_fd = (\<lambda>fd. Some (Exn OSError ''[Errno 9] Bad file descriptor''))\<rparr>"

definition failing_env :: env where
  "failing_env =
     \<lparr>get_dict = (\<lambda>t params. Inl (Exn ClientError ''Connection refused'')),
      isoformat = (\<lambda>t. ''2024-01-01T00:00:00''),
      opens = (\<lambda>path. None),
      opens_fd = (\<lambda>fd. Some (Exn OSError ''[Errno 9] Bad file descriptor''))\<rparr>"

definition world0 :: world where
  "world0 = \<lparr>clock = 0, requests = [], files = [], fd_written = []\<rparr>"

text \<open>A response that reports an error of the service and has no trends.\<close>

definition error_results :: pydict where
  "error_results = [(KStr ''error'', PStr ''Invalid API key'')]"

definition error_env :: env where
  "error_env =
     \<lparr>get_dict = (\<lambda>t params. Inr error_results),
      isoformat = (\<lambda>t. ''2024-01-01T00:00:00''),
      opens = (\<lambda>path. None),
      opens_fd = (\<lambda>fd. Some (Exn OSError ''[Errno 9] Bad file descriptor''))\<rparr>"

section \<open>The shape of a collection run\<close>

text \<open>
  The data model of a run, as far as the projection reads it: the metadata, when present,
  is a dictionary; \<open>trending_searches_data\<close> is a list of region results; the
  \<open>trending_searches\<close> of a region result, when present, is a list of trend records; the
  \<open>categories\<close> of a trend record, when present, is a list of dictionaries.
\<close>

fun is_dict :: "pyval \<Rightarrow> bool" where
  "is_dict (PDict d) = True"
| "is_dict v = False"

fun list_of :: "pyval option \<Rightarrow> pyval list option" where
  "list_of None = Some []"
| "list_of (Some (PList xs)) = Some xs"
| "list_of (Some v) = None"

fun trend_shape :: "pyval \<Rightarrow> bool" where
  "trend_shape (PDict trend) =
     (case list_of (dget trend ''categories'') of
        Some cats \<Rightarrow> list_all is_dict cats
      | None \<Rightarrow> False)"
| "trend_shape v = False"

fun region_shape :: "pyval \<Rightarrow> bool" where
  "region_shape (PDict region_data) =
     (case list_of (dget region_data ''trending_searches'') of
        Some trends \<Rightarrow> list_all trend_shape trends
      | None \<Rightarrow> False)"
| "region_shape v = False"

definition run_shape :: "pydict \<Rightarrow> bool" where
  "run_shape data =
     (is_dict (get_default data ''metadata'' (PDict [])) \<and>
      (case list_of (dget data ''trending_searches_data'') of
         Some regions \<Rightarrow> list_all region_shape regions
       | None \<Rightarrow> False))"

text \<open>A run with one region and two trends, the first with a category; and a
  configuration whose output file does not end in \<open>.json\<close>.\<close>

definition example_run :: pydict where
  "example_run =
     [(KStr ''metadata'', PDict [(KStr ''collection_time'', PStr ''2024-01-01T00:00:00'')]),
      (KStr ''trending_searches_data'', PList
         [PDict
            [(KStr ''region_name'', PStr ''Poland''),
             (KStr ''region_code'', PStr ''PL''),
             (KStr ''collection_time'', PStr ''2024-01-01T00:00:05''),
             (KStr ''trending_searches'', PList
                [PDict [(KStr ''query'', PStr ''a''),
                        (KStr ''search_volume'', PInt 10),
                        (KStr ''increase_percentage'', PInt 50),
                        (KStr ''active'', PBool True),
                        (KStr ''categories'', PList [PDict [(KStr ''id'', PInt 17), (KStr ''name'', PStr ''Sports'')]]),
                        (KStr ''related_queries'', PList []),
                        (KStr ''start_timestamp'', PInt 0)],
                 PDict [(KStr ''query'', PStr ''b''),
                        (KStr ''search_volume'', PInt 0),
                        (KStr ''increase_percentage'', PInt 0),
                        (KStr ''active'', PBool True),
                        (KStr ''categories'', PList []),
                        (KStr ''related_queries'', PList []),
                        (KStr ''start_timestamp'', PInt 0)]]),
             (KStr ''source'', PStr ''SerpAPI Google Trends'')]])]"

text \<open>Configurations with only some of the keys.\<close>

definition config_required_only :: pydict where
  "config_required_only =
     [(KStr ''serpapi_key'', PStr ''secret''),
      (KStr ''keywords'', PList [PStr ''python'']),
      (KStr ''regions'', PList example_regions)]"

definition config_without_keywords :: pydict where
  "config_without_keywords =
     [(KStr ''serpapi_key'', PStr ''secret''),
      (KStr ''regions'', PList example_regions)]"

definition config_without_regions :: pydict where
  "config_without_regions =
     [(KStr ''serpapi_key'', PStr ''secret''),
      (KStr ''keywords'', PList [PStr ''python''])]"

section \<open>Interest over time, as the specification words it\<close>

text \<open>
  \<open>dict(pairs)\<close>: the dictionary that holds the pairs, entered from left to right. A key
  that comes again keeps its place and takes the later value.
\<close>

definition py_dict :: "(pykey \<times> pyval) list \<Rightarrow> pydict" where
  "py_dict pairs = foldl (\<lambda>d (k, v). dict_update k v d) [] pairs"

text \<open>The date, the value list and the value of an entry, with the defaults for what
  a data point lacks.\<close>

fun point_date :: "pyval \<Rightarrow> string" where
  "point_date (PDict p) = (case dget p ''date'' of Some (PStr s) \<Rightarrow> s | _ \<Rightarrow> [])"
| "point_date v = []"

fun point_values :: "pyval \<Rightarrow> pyval list" where
  "point_values (PDict p) = (case dget p ''values'' of Some (PList vs) \<Rightarrow> vs | _ \<Rightarrow> [])"
| "point_values v = []"

fun entry_value :: "pyval \<Rightarrow> pyval" where
  "entry_value (PDict e) = get_default e ''value'' (PInt 0)"
| "entry_value v = PInt 0"

text \<open>The mapping of one date: the value list zipped against the keyword list, the
  \<open>i\<close>-th value under the \<open>i\<close>-th keyword.\<close>

definition spec_row :: "string list \<Rightarrow> pyval list \<Rightarrow> pydict" where
  "spec_row keywords vs = py_dict (zip (map KStr keywords) (map entry_value vs))"

text \<open>The mapping from date to row, over the data points that have a date and values.\<close>

definition spec_interest :: "string list \<Rightarrow> pyval list \<Rightarrow> pydict" where
  "spec_interest keywords points =
     py_dict (map (\<lambda>p. (KStr (point_date p), PDict (spec_row keywords (point_values p))))
               (filter (\<lambda>p. point_date p \<noteq> [] \<and> point_values p \<noteq> []) points))"

text \<open>The entries of a sub-mapping for the keywords that it has, copied as they are.\<close>

definition spec_related :: "pydict \<Rightarrow> string list \<Rightarrow> pydict" where
  "spec_related src keywords =
     py_dict (concat (map (\<lambda>k. case dget src k of Some v \<Rightarrow> [(KStr k, v)] | None \<Rightarrow> [])
                        keywords))"

text \<open>
  A response of the documented shape: \<open>interest_over_time\<close>, when present, is a dictionary
  whose \<open>timeline_data\<close>, when present, is a list of data points; a data point is a
  dictionary whose \<open>date\<close>, when present, is a string and whose \<open>values\<close>, when present, is
  a list of dictionaries; \<open>related_topics\<close> and \<open>related_queries\<close>, when present, are
  dictionaries.
\<close>

fun point_shape :: "pyval \<Rightarrow> bool" where
  "point_shape (PDict p) =
     ((case dget p ''date'' of None \<Rightarrow> True | Some (PStr s) \<Rightarrow> True | Some v \<Rightarrow> False) \<and>
      (case list_of (dget p ''values'') of Some vs \<Rightarrow> list_all is_dict vs | None \<Rightarrow> False))"
| "point_shape v = False"

definition response_timeline :: "pydict \<Rightarrow> pyval list option" where
  "response_timeline results =
     (case dget results ''interest_over_time'' of
        None \<Rightarrow> Some []
      | Some (PDict iot) \<Rightarrow> list_of (dget iot ''timeline_data'')
      | Some v \<Rightarrow> None)"

definition response_related :: "pydict \<Rightarrow> string \<Rightarrow> pydict option" where
  "response_related results field =
     (case dget results field of
        None \<Rightarrow> Some []
      | Some (PDict src) \<Rightarrow> Some src
      | Some v \<Rightarrow> None)"

text \<open>A response for the keywords \<open>python\<close> and \<open>rust\<close>: two dated points, one point
  without values, topics for \<open>rust\<close> only.\<close>

definition example_interest :: pydict where
  "example_interest =
     [(KStr ''interest_over_time'', PDict
        [(KStr ''timeline_data'', PList
           [PDict [(KStr ''date'', PStr ''Jan 1''),
                   (KStr ''values'', PList [PDict [(KStr ''query'', PStr ''python''), (KStr ''value'', PInt 80)],
                                           PDict [(KStr ''query'', PStr ''rust''), (KStr ''value'', PInt 35)]])],
            PDict [(KStr ''date'', PStr ''Jan 2''), (KStr ''values'', PList [])],
            PDict [(KStr ''date'', PStr ''Jan 3''),
                   (KStr ''values'', PList [PDict [(KStr ''query'', PStr ''python''), (KStr ''value'', PInt 75)]])]])]),
      (KStr ''related_topics'', PDict
        [(KStr ''rust'', PDict [(KStr ''rising'', PList [PStr ''cargo''])]),
         (KStr ''go'', PDict [(KStr ''rising'', PList [])])])]"

section \<open>Basic facts\<close>

text \<open>For a string key, lookup and assignment are those of an association list.\<close>

lemma key_eq_str: "key_eq k (KStr s) = (k = KStr s)"
  by (cases k) (simp_all add: key_eq_def)

lemma dget_map_of: "dget d k = map_of d (KStr k)"
  unfolding dget_def by (induction d) (auto simp: key_eq_str)

lemma dset_update: "dset d k v = AList.update (KStr k) v d"
  unfolding dset_def by (induction d) (auto simp: key_eq_str)

lemma dget_dset: "dget (dset d k v) k' = (if k' = k then Some v else dget d k')"
  by (simp add: dget_map_of dset_update update_conv')

lemma collect_each_length: "collect_each f xs = Inr ys \<Longrightarrow> length ys = length xs"
  by (induction xs arbitrary: ys) (auto simp: bind_exn_def split: sum.splits)

lemma collect_each_nth:
  "collect_each f xs = Inr ys \<Longrightarrow> i < length xs \<Longrightarrow> f (xs ! i) = Inr (ys ! i)"
proof (induction xs arbitrary: ys i)
  case Nil
  then show ?case by simp
next
  case (Cons x xs)
  then show ?case by (cases i) (auto simp: bind_exn_def split: sum.splits)
qed

lemma collect_each_total:
  "\<forall>x \<in> set xs. \<exists>y. f x = Inr y \<Longrightarrow> \<exists>ys. collect_each f xs = Inr ys"
  by (induction xs) (auto simp: bind_exn_def)

lemma py_subscript_Inr:
  "py_subscript v k = Inr x \<Longrightarrow> \<exists>d. v = PDict d \<and> dget d k = Some x"
  by (cases v) (auto split: option.splits)

section \<open>Trending searches: the normalized result\<close>

lemma normalize_trending_fields:
  assumes "normalize_trending self region_code region_name stamp results = Inr d"
  shows "dget d ''region_name'' = Some region_name"
    and "dget d ''region_code'' = Some region_code"
    and "dget d ''note'' =
           Some (PStr ''Global trending searches (region-specific may not be available)'')"
  using assms
  by (auto simp: normalize_trending_def bind_exn_def dget_dset Let_def
           split: option.splits sum.splits)
     (simp_all add: dget_map_of)

lemma trending_try_world:
  "snd (trending_try ev self region_code region_name w) =
     w\<lparr>requests := requests w @ [trending_params self region_code]\<rparr>"
  by (simp add: trending_try_def Let_def)

lemma collect_trending_searches_world:
  "snd (collect_trending_searches ev self region_code region_name w) =
     w\<lparr>requests := requests w @ [trending_params self region_code]\<rparr>"
  by (auto simp: collect_trending_searches_def trending_try_def Let_def split: sum.splits)

lemma collect_trending_searches_region:
  "dget (fst (collect_trending_searches ev self region_code region_name w)) ''region_name''
     = Some region_name"
  "dget (fst (collect_trending_searches ev self region_code region_name w)) ''region_code''
     = Some region_code"
  by (auto simp: collect_trending_searches_def trending_try_def Let_def bind_exn_def
        normalize_trending_fields split: sum.splits)
     (simp_all add: dget_map_of)

text \<open>With a count \<open>K \<ge> 0\<close> and dictionaries among the first \<open>K\<close> items, the result holds
  the records of these items.\<close>

lemma normalize_trending_take:
  assumes found: "dget results ''trending_searches'' = Some (PList items)"
      and cnt: "py_get (get_default (config self) ''trending_searches'' (PDict []))
                  ''count'' (PInt 20) = Inr (PInt K)"
      and nonneg: "0 \<le> K"
      and dicts: "\<forall>t \<in> set (take (nat K) items). \<exists>d. t = PDict d"
  shows "\<exists>recs.
           collect_each trend_record (take (nat K) items) = Inr recs \<and>
           normalize_trending self region_code region_name stamp results =
             Inr [(KStr ''region_name'', region_name),
                  (KStr ''region_code'', region_code),
                  (KStr ''collection_time'', stamp),
                  (KStr ''trending_searches'', PList recs),
                  (KStr ''source'', source_name),
                  (KStr ''note'', PStr ''Global trending searches (region-specific may not be available)'')]"
proof -
  from dicts have "\<forall>t \<in> set (take (nat K) items). \<exists>y. trend_record t = Inr y" by auto
  from collect_each_total[OF this] obtain recs
    where recs: "collect_each trend_record (take (nat K) items) = Inr recs" ..
  with found cnt nonneg show ?thesis
    by (simp add: normalize_trending_def bind_exn_def slice_to_def dset_update)
qed

text \<open>
  Claim C2, as amended. A response holds a list of \<open>M\<close> items under \<open>trending_searches\<close>
  and the configured count is an integer \<open>K \<ge> 0\<close> (20 when the configuration has none);
  the items that are kept are dictionaries. Then normalization yields \<open>min M K\<close> records,
  the \<open>i\<close>-th made from the \<open>i\<close>-th item of the response, and every field that the item
  lacks has its default: \<open>query\<close> the empty string, \<open>search_volume\<close> 0,
  \<open>increase_percentage\<close> 0, \<open>active\<close> true, \<open>categories\<close> the empty list,
  \<open>related_queries\<close> the item's \<open>trend_breakdown\<close> or the empty list, \<open>start_timestamp\<close> 0.
\<close>

theorem normalize_trending_truncates:
  assumes found: "dget results ''trending_searches'' = Some (PList items)"
      and cnt: "py_get (get_default (config self) ''trending_searches'' (PDict []))
                  ''count'' (PInt 20) = Inr (PInt K)"
      and nonneg: "0 \<le> K"
      and dicts: "\<forall>t \<in> set (take (nat K) items). \<exists>d. t = PDict d"
  shows "\<exists>recs.
           normalize_trending self region_code region_name stamp results =
             Inr [(KStr ''region_name'', region_name),
                  (KStr ''region_code'', region_code),
                  (KStr ''collection_time'', stamp),
                  (KStr ''trending_searches'', PList recs),
                  (KStr ''source'', source_name),
                  (KStr ''note'', PStr ''Global trending searches (region-specific may not be available)'')]
         \<and> length recs = min (length items) (nat K)
         \<and> (\<forall>i < length recs. \<exists>trend.
               items ! i = PDict trend \<and>
               recs ! i = PDict
                 [(KStr ''query'', case dget trend ''query'' of Some v \<Rightarrow> v | None \<Rightarrow> PStr []),
                  (KStr ''search_volume'', case dget trend ''search_volume'' of Some v \<Rightarrow> v | None \<Rightarrow> PInt 0),
                  (KStr ''increase_percentage'', case dget trend ''increase_percentage'' of Some v \<Rightarrow> v | None \<Rightarrow> PInt 0),
                  (KStr ''active'', case dget trend ''active'' of Some v \<Rightarrow> v | None \<Rightarrow> PBool True),
                  (KStr ''categories'', case dget trend ''categories'' of Some v \<Rightarrow> v | None \<Rightarrow> PList []),
                  (KStr ''related_queries'', case dget trend ''trend_breakdown'' of Some v \<Rightarrow> v | None \<Rightarrow> PList []),
                  (KStr ''start_timestamp'', case dget trend ''start_timestamp'' of Some v \<Rightarrow> v | None \<Rightarrow> PInt 0)])"
proof -
  let ?cut = "take (nat K) items"
  from normalize_trending_take[OF found cnt nonneg dicts] obtain recs where
    recs: "collect_each trend_record ?cut = Inr recs" and
    norm: "normalize_trending self region_code region_name stamp results =
             Inr [(KStr ''region_name'', region_name),
                  (KStr ''region_code'', region_code),
                  (KStr ''collection_time'', stamp),
                  (KStr ''trending_searches'', PList recs),
                  (KStr ''source'', source_name),
                  (KStr ''note'', PStr ''Global trending searches (region-specific may not be available)'')]"
    by blast
  have len: "length recs = min (length items) (nat K)"
    using collect_each_length[OF recs] by simp
  have nth: "\<exists>trend. items ! i = PDict trend \<and> trend_record (PDict trend) = Inr (recs ! i)"
    if "i < length recs" for i
  proof -
    from that len have i: "i < length ?cut" by simp
    then have "?cut ! i \<in> set ?cut" by (rule nth_mem)
    with dicts obtain trend where t: "?cut ! i = PDict trend" by blast
    from i have "?cut ! i = items ! i" by simp
    with t collect_each_nth[OF recs i] show ?thesis by auto
  qed
  from nth have "\<forall>i < length recs. \<exists>trend.
               items ! i = PDict trend \<and>
               recs ! i = PDict
                 [(KStr ''query'', case dget trend ''query'' of Some v \<Rightarrow> v | None \<Rightarrow> PStr []),
                  (KStr ''search_volume'', case dget trend ''search_volume'' of Some v \<Rightarrow> v | None \<Rightarrow> PInt 0),
                  (KStr ''increase_percentage'', case dget trend ''increase_percentage'' of Some v \<Rightarrow> v | None \<Rightarrow> PInt 0),
                  (KStr ''active'', case dget trend ''active'' of Some v \<Rightarrow> v | None \<Rightarrow> PBool True),
                  (KStr ''categories'', case dget trend ''categories'' of Some v \<Rightarrow> v | None \<Rightarrow> PList []),
                  (KStr ''related_queries'', case dget trend ''trend_breakdown'' of Some v \<Rightarrow> v | None \<Rightarrow> PList []),
                  (KStr ''start_timestamp'', case dget trend ''start_timestamp'' of Some v \<Rightarrow> v | None \<Rightarrow> PInt 0)]"
    by (fastforce simp: get_default_def)
  with norm len show ?thesis by blast
qed

text \<open>
  The specification's example: count 2 and the three items \<open>a\<close>, \<open>b\<close>, \<open>c\<close> give two
  records, the second with \<open>search_volume\<close> 0.
\<close>

theorem normalize_trending_truncates_witness:
  "\<exists>recs. dget (fst (collect_trending_searches example_env (example_collector 2)
                       (PStr ''PL'') (PStr ''Poland'') world0)) ''trending_searches''
             = Some (PList recs)
         \<and> length recs = 2
         \<and> recs ! 1 = PDict
                 [(KStr ''query'', PStr ''b''),
                  (KStr ''search_volume'', PInt 0),
                  (KStr ''increase_percentage'', PInt 0),
                  (KStr ''active'', PBool True),
                  (KStr ''categories'', PList []),
                  (KStr ''related_queries'', PList []),
                  (KStr ''start_timestamp'', PInt 0)]"
proof -
  let ?self = "example_collector 2"
  have found: "dget example_results ''trending_searches'' = Some (PList example_items)"
    by (simp add: example_results_def dget_map_of)
  have cnt: "py_get (get_default (config ?self) ''trending_searches'' (PDict []))
               ''count'' (PInt 20) = Inr (PInt 2)"
    by (simp add: example_collector_def get_default_def dget_map_of)
  have nonneg: "(0::int) \<le> 2" by simp
  have dicts: "\<forall>t \<in> set (take (nat 2) example_items). \<exists>d. t = PDict d"
    by (simp add: example_items_def)
  from normalize_trending_truncates[OF found cnt nonneg dicts,
        of "PStr ''PL''" "PStr ''Poland''" "now_iso example_env world0"]
  obtain recs where
    norm: "normalize_trending ?self (PStr ''PL'') (PStr ''Poland'') (now_iso example_env world0)
             example_results =
             Inr [(KStr ''region_name'', PStr ''Poland''),
                  (KStr ''region_code'', PStr ''PL''),
                  (KStr ''collection_time'', now_iso example_env world0),
                  (KStr ''trending_searches'', PList recs),
                  (KStr ''source'', source_name),
                  (KStr ''note'', PStr ''Global trending searches (region-specific may not be available)'')]"
    and len: "length recs = min (length example_items) (nat 2)"
    and nth: "\<forall>i < length recs. \<exists>trend.
               example_items ! i = PDict trend \<and>
               recs ! i = PDict
                 [(KStr ''query'', case dget trend ''query'' of Some v \<Rightarrow> v | None \<Rightarrow> PStr []),
                  (KStr ''search_volume'', case dget trend ''search_volume'' of Some v \<Rightarrow> v | None \<Rightarrow> PInt 0),
                  (KStr ''increase_percentage'', case dget trend ''increase_percentage'' of Some v \<Rightarrow> v | None \<Rightarrow> PInt 0),
                  (KStr ''active'', case dget trend ''active'' of Some v \<Rightarrow> v | None \<Rightarrow> PBool True),
                  (KStr ''categories'', case dget trend ''categories'' of Some v \<Rightarrow> v | None \<Rightarrow> PList []),
                  (KStr ''related_queries'', case dget trend ''trend_breakdown'' of Some v \<Rightarrow> v | None \<Rightarrow> PList []),
                  (KStr ''start_timestamp'', case dget trend ''start_timestamp'' of Some v \<Rightarrow> v | None \<Rightarrow> PInt 0)]"
    by blast
  from len have len2: "length recs = 2" by (simp add: example_items_def)
  with nth have "\<exists>trend.
               example_items ! 1 = PDict trend \<and>
               recs ! 1 = PDict
                 [(KStr ''query'', case dget trend ''query'' of Some v \<Rightarrow> v | None \<Rightarrow> PStr []),
                  (KStr ''search_volume'', case dget trend ''search_volume'' of Some v \<Rightarrow> v | None \<Rightarrow> PInt 0),
                  (KStr ''increase_percentage'', case dget trend ''increase_percentage'' of Some v \<Rightarrow> v | None \<Rightarrow> PInt 0),
                  (KStr ''active'', case dget trend ''active'' of Some v \<Rightarrow> v | None \<Rightarrow> PBool True),
                  (KStr ''categories'', case dget trend ''categories'' of Some v \<Rightarrow> v | None \<Rightarrow> PList []),
                  (KStr ''related_queries'', case dget trend ''trend_breakdown'' of Some v \<Rightarrow> v | None \<Rightarrow> PList []),
                  (KStr ''start_timestamp'', case dget trend ''start_timestamp'' of Some v \<Rightarrow> v | None \<Rightarrow> PInt 0)]"
    by simp
  then have second: "recs ! 1 = PDict
                 [(KStr ''query'', PStr ''b''),
                  (KStr ''search_volume'', PInt 0),
                  (KStr ''increase_percentage'', PInt 0),
                  (KStr ''active'', PBool True),
                  (KStr ''categories'', PList []),
                  (KStr ''related_queries'', PList []),
                  (KStr ''start_timestamp'', PInt 0)]"
    by (auto simp: example_items_def dget_map_of)
  have "fst (collect_trending_searches example_env ?self (PStr ''PL'') (PStr ''Poland'') world0)
          = [(KStr ''region_name'', PStr ''Poland''),
                  (KStr ''region_code'', PStr ''PL''),
                  (KStr ''collection_time'', now_iso example_env world0),
                  (KStr ''trending_searches'', PList recs),
                  (KStr ''source'', source_name),
                  (KStr ''note'', PStr ''Global trending searches (region-specific may not be available)'')]"
    using norm
    by (simp add: collect_trending_searches_def trending_try_def Let_def bind_exn_def
          example_env_def now_iso_def world0_def)
  then have "dget (fst (collect_trending_searches example_env ?self (PStr ''PL'')
                         (PStr ''Poland'') world0)) ''trending_searches'' = Some (PList recs)"
    by (simp add: dget_map_of)
  with len2 second show ?thesis by blast
qed

text \<open>
  Claim C2 as stated fails for a negative count: \<open>[:count]\<close> with count \<open>-1\<close> drops the last
  item, so three items give two records, not \<open>min 3 (-1)\<close>.
\<close>

theorem normalize_trending_negative_count:
  "normalize_trending (example_collector (- 1)) (PStr ''PL'') (PStr ''Poland'')
       (PStr ''2024-01-01T00:00:00'') example_results =
     Inr [(KStr ''region_name'', PStr ''Poland''),
          (KStr ''region_code'', PStr ''PL''),
          (KStr ''collection_time'', PStr ''2024-01-01T00:00:00''),
          (KStr ''trending_searches'', PList
             [PDict [(KStr ''query'', PStr ''a''),
                     (KStr ''search_volume'', PInt 10),
                     (KStr ''increase_percentage'', PInt 0),
                     (KStr ''active'', PBool True),
                     (KStr ''categories'', PList []),
                     (KStr ''related_queries'', PList []),
                     (KStr ''start_timestamp'', PInt 0)],
              PDict [(KStr ''query'', PStr ''b''),
                     (KStr ''search_volume'', PInt 0),
                     (KStr ''increase_percentage'', PInt 0),
                     (KStr ''active'', PBool True),
                     (KStr ''categories'', PList []),
                     (KStr ''related_queries'', PList []),
                     (KStr ''start_timestamp'', PInt 0)]]),
          (KStr ''source'', PStr ''SerpAPI Google Trends''),
          (KStr ''note'', PStr ''Global trending searches (region-specific may not be available)'')]
   \<and> length example_items = 3 \<and> (2::int) \<noteq> min 3 (- 1)"
  by (simp add: normalize_trending_def example_collector_def example_results_def
        example_items_def get_default_def dget_map_of dset_update bind_exn_def slice_to_def
        source_name_def)

section \<open>The loop over the regions\<close>

lemma regions_loop_result:
  "regions_loop ev self True n i rs acc w = (Inr out, w') \<Longrightarrow>
     length out = length acc + length rs \<and> take (length acc) out = acc \<and>
     (\<forall>j < length rs. \<exists>d nm cd.
         out ! (length acc + j) = PDict d \<and>
         py_subscript (rs ! j) ''name'' = Inr nm \<and>
         py_subscript (rs ! j) ''code'' = Inr cd \<and>
         dget d ''region_name'' = Some nm \<and> dget d ''region_code'' = Some cd)"
proof (induction rs arbitrary: i acc w)
  case Nil
  then show ?case by simp
next
  case (Cons region rest)
  from Cons.prems obtain nm cd where
    nm: "py_subscript region ''name'' = Inr nm" and cd: "py_subscript region ''code'' = Inr cd"
    by (auto split: sum.splits)
  obtain td w1 where cts: "collect_trending_searches ev self cd nm w = (td, w1)"
    by (cases "collect_trending_searches ev self cd nm w")
  let ?w2 = "if int i < int n - 1 then sleep 3 (sleep 2 w1) else sleep 2 w1"
  from Cons.prems nm cd cts
  have rest: "regions_loop ev self True n (i + 1) rest (acc @ [PDict td]) ?w2 = (Inr out, w')"
    by (simp split: if_splits)
  from Cons.IH[OF rest] have
    len: "length out = length (acc @ [PDict td]) + length rest" and
    tk: "take (length (acc @ [PDict td])) out = acc @ [PDict td]" and
    ih: "\<forall>j < length rest. \<exists>d nm cd.
         out ! (length (acc @ [PDict td]) + j) = PDict d \<and>
         py_subscript (rest ! j) ''name'' = Inr nm \<and>
         py_subscript (rest ! j) ''code'' = Inr cd \<and>
         dget d ''region_name'' = Some nm \<and> dget d ''region_code'' = Some cd"
    by blast+
  have tk_acc: "take (length acc) out = acc"
  proof -
    have "take (length acc) (take (length (acc @ [PDict td])) out)
            = take (length acc) (acc @ [PDict td])"
      by (simp only: tk)
    then show ?thesis by (simp add: min_def)
  qed
  have at: "out ! length acc = PDict td"
  proof -
    have "take (length (acc @ [PDict td])) out ! length acc = (acc @ [PDict td]) ! length acc"
      by (simp only: tk)
    then show ?thesis by simp
  qed
  have td_fields: "dget td ''region_name'' = Some nm" "dget td ''region_code'' = Some cd"
    using collect_trending_searches_region[of ev self cd nm w] cts by simp_all
  have "\<exists>d nm cd.
         out ! (length acc + j) = PDict d \<and>
         py_subscript ((region # rest) ! j) ''name'' = Inr nm \<and>
         py_subscript ((region # rest) ! j) ''code'' = Inr cd \<and>
         dget d ''region_name'' = Some nm \<and> dget d ''region_code'' = Some cd"
    if j: "j < length (region # rest)" for j
  proof (cases j)
    case 0
    with at nm cd td_fields show ?thesis by simp
  next
    case (Suc k)
    with j have "k < length rest" by simp
    with ih Suc show ?thesis by simp
  qed
  with len tk_acc show ?case by simp
qed

text \<open>The code of a region, as the request carries it; regions that are not dictionaries
  with a \<open>code\<close> do not get that far.\<close>

lemma regions_loop_total:
  "\<forall>region \<in> set rs. \<exists>d nm cd. region = PDict d \<and> dget d ''name'' = Some nm \<and> dget d ''code'' = Some cd
   \<Longrightarrow> \<exists>out w'. regions_loop ev self True n i rs acc w = (Inr out, w')
         \<and> length out = length acc + length rs
         \<and> requests w' = requests w @
              map (\<lambda>region. trending_params self (case region of PDict d \<Rightarrow> get_default d ''code'' PNone | _ \<Rightarrow> PNone)) rs"
proof (induction rs arbitrary: i acc w)
  case Nil
  then show ?case by simp
next
  case (Cons region rest)
  from Cons.prems obtain d nm cd where
    region: "region = PDict d" "dget d ''name'' = Some nm" "dget d ''code'' = Some cd"
    by auto
  obtain td w1 where cts: "collect_trending_searches ev self cd nm w = (td, w1)"
    by (cases "collect_trending_searches ev self cd nm w")
  with collect_trending_searches_world[of ev self cd nm w]
  have w1: "w1 = w\<lparr>requests := requests w @ [trending_params self cd]\<rparr>" by simp
  let ?w2 = "if int i < int n - 1 then sleep 3 (sleep 2 w1) else sleep 2 w1"
  have req2: "requests ?w2 = requests w @ [trending_params self cd]"
    by (simp add: w1 sleep_def)
  from Cons.prems have "\<forall>region \<in> set rest. \<exists>d nm cd.
      region = PDict d \<and> dget d ''name'' = Some nm \<and> dget d ''code'' = Some cd"
    by simp
  from Cons.IH[OF this, of "i + 1" "acc @ [PDict td]" ?w2] obtain out w' where
    loop: "regions_loop ev self True n (i + 1) rest (acc @ [PDict td]) ?w2 = (Inr out, w')" and
    len: "length out = length (acc @ [PDict td]) + length rest" and
    req: "requests w' = requests ?w2 @
              map (\<lambda>region. trending_params self (case region of PDict d \<Rightarrow> get_default d ''code'' PNone | _ \<Rightarrow> PNone)) rest"
    by blast
  have "regions_loop ev self True n i (region # rest) acc w = (Inr out, w')"
    using region cts loop by (simp split: if_splits)
  moreover have "length out = length acc + length (region # rest)"
    using len by simp
  moreover have "requests w' = requests w @
      map (\<lambda>region. trending_params self (case region of PDict d \<Rightarrow> get_default d ''code'' PNone | _ \<Rightarrow> PNone)) (region # rest)"
    using req req2 region by (simp add: get_default_def)
  ultimately show ?case by blast
qed

text \<open>
  Claim C1. The configured regions are a list of length \<open>N\<close>, trending collection is
  enabled, and the run returns (no region raised before it was recorded). Then
  \<open>trending_searches_data\<close> has exactly \<open>N\<close> elements, and the \<open>i\<close>-th element's
  \<open>region_name\<close> and \<open>region_code\<close> are the \<open>name\<close> and \<open>code\<close> of the \<open>i\<close>-th region.
\<close>

theorem collect_all_trends_one_result_per_region:
  assumes ran: "collect_all_trends ev self w = (Inr data, w')"
      and regions: "dget (config self) ''regions'' = Some (PList rs)"
      and flag: "py_get (get_default (config self) ''trending_searches'' (PDict []))
                   ''enabled'' (PBool False) = Inr enabled"
      and enabled: "truthy enabled"
  shows "\<exists>ds. dget data ''trending_searches_data'' = Some (PList ds) \<and>
           length ds = length rs \<and>
           (\<forall>i < length rs. \<exists>d region nm cd.
               ds ! i = PDict d \<and> rs ! i = PDict region \<and>
               dget region ''name'' = Some nm \<and> dget region ''code'' = Some cd \<and>
               dget d ''region_name'' = Some nm \<and> dget d ''region_code'' = Some cd)"
proof -
  from ran regions flag enabled obtain ds where
    loop: "regions_loop ev self True (length rs) 0 rs [] w = (Inr ds, w')" and
    data: "dget data ''trending_searches_data'' = Some (PList ds)"
    by (auto simp: collect_all_trends_def Let_def dget_map_of
          split: sum.splits option.splits prod.splits)
  from regions_loop_result[OF loop] have
    len: "length ds = length rs" and
    each: "\<forall>j < length rs. \<exists>d nm cd.
         ds ! j = PDict d \<and>
         py_subscript (rs ! j) ''name'' = Inr nm \<and>
         py_subscript (rs ! j) ''code'' = Inr cd \<and>
         dget d ''region_name'' = Some nm \<and> dget d ''region_code'' = Some cd"
    by simp_all
  have "\<exists>d region nm cd.
               ds ! i = PDict d \<and> rs ! i = PDict region \<and>
               dget region ''name'' = Some nm \<and> dget region ''code'' = Some cd \<and>
               dget d ''region_name'' = Some nm \<and> dget d ''region_code'' = Some cd"
    if "i < length rs" for i
  proof -
    from each that obtain d nm cd where
      d: "ds ! i = PDict d" "dget d ''region_name'' = Some nm" "dget d ''region_code'' = Some cd"
      and nm: "py_subscript (rs ! i) ''name'' = Inr nm"
      and cd: "py_subscript (rs ! i) ''code'' = Inr cd"
      by blast
    from py_subscript_Inr[OF nm] py_subscript_Inr[OF cd] d show ?thesis by auto
  qed
  with data len show ?thesis by blast
qed

theorem collect_all_trends_one_result_per_region_witness:
  "\<exists>data w' ds d0 d1.
     collect_all_trends failing_env (example_collector 2) world0 = (Inr data, w') \<and>
     dget data ''trending_searches_data'' = Some (PList ds) \<and> length ds = 2 \<and>
     ds ! 0 = PDict d0 \<and> dget d0 ''region_code'' = Some (PStr ''PL'') \<and>
     dget d0 ''region_name'' = Some (PStr ''Poland'') \<and>
     ds ! 1 = PDict d1 \<and> dget d1 ''region_code'' = Some (PStr ''DE'') \<and>
     dget d1 ''region_name'' = Some (PStr ''Germany'')"
proof -
  let ?self = "example_collector 2"
  have "\<not> isl (fst (collect_all_trends failing_env ?self world0))"
    by code_simp
  moreover obtain r w' where "collect_all_trends failing_env ?self world0 = (r, w')"
    by (cases "collect_all_trends failing_env ?self world0")
  ultimately obtain data w' where
    ran: "collect_all_trends failing_env ?self world0 = (Inr data, w')"
    by (cases r) auto
  have regions: "dget (config ?self) ''regions'' = Some (PList example_regions)"
    by (simp add: example_collector_def dget_map_of)
  have flag: "py_get (get_default (config ?self) ''trending_searches'' (PDict []))
                   ''enabled'' (PBool False) = Inr (PBool True)"
    by (simp add: example_collector_def get_default_def dget_map_of)
  have enabled: "truthy (PBool True)" by simp
  from collect_all_trends_one_result_per_region[OF ran regions flag enabled]
  obtain ds where
    data: "dget data ''trending_searches_data'' = Some (PList ds)" and
    len: "length ds = length example_regions" and
    each: "\<forall>i < length example_regions. \<exists>d region nm cd.
               ds ! i = PDict d \<and> example_regions ! i = PDict region \<and>
               dget region ''name'' = Some nm \<and> dget region ''code'' = Some cd \<and>
               dget d ''region_name'' = Some nm \<and> dget d ''region_code'' = Some cd"
    by blast
  have l2: "length example_regions = 2" by (simp add: example_regions_def)
  from each l2 have
    "\<exists>d region nm cd.
               ds ! 0 = PDict d \<and> example_regions ! 0 = PDict region \<and>
               dget region ''name'' = Some nm \<and> dget region ''code'' = Some cd \<and>
               dget d ''region_name'' = Some nm \<and> dget d ''region_code'' = Some cd"
    by simp
  then obtain d0 where d0: "ds ! 0 = PDict d0" "dget d0 ''region_code'' = Some (PStr ''PL'')"
     "dget d0 ''region_name'' = Some (PStr ''Poland'')"
    by (auto simp: example_regions_def dget_map_of)
  from each l2 have
    "\<exists>d region nm cd.
               ds ! 1 = PDict d \<and> example_regions ! 1 = PDict region \<and>
               dget region ''name'' = Some nm \<and> dget region ''code'' = Some cd \<and>
               dget d ''region_name'' = Some nm \<and> dget d ''region_code'' = Some cd"
    by simp
  then obtain d1 where d1: "ds ! 1 = PDict d1" "dget d1 ''region_code'' = Some (PStr ''DE'')"
     "dget d1 ''region_name'' = Some (PStr ''Germany'')"
    by (auto simp: example_regions_def dget_map_of)
  from ran data len l2 d0 d1 show ?thesis by auto
qed

section \<open>Failures of one region\<close>

text \<open>
  Claim C3. When the call of the client or the normalization raises \<open>e\<close> for a region,
  \<open>collect_trending_searches\<close> returns a record with exactly the fields \<open>region_name\<close>,
  \<open>region_code\<close>, \<open>error\<close> (the text of \<open>e\<close>), \<open>collection_time\<close> and \<open>source\<close>; in the loop
  over the regions this record is appended, and every later region is still requested
  and recorded.
\<close>

theorem region_failure_is_contained:
  assumes fails: "fst (trending_try ev self region_code region_name w) = Inl e"
      and region: "region = PDict r" "dget r ''name'' = Some region_name"
                  "dget r ''code'' = Some region_code"
      and later: "\<forall>x \<in> set rest. \<exists>d nm cd.
                    x = PDict d \<and> dget d ''name'' = Some nm \<and> dget d ''code'' = Some cd"
  shows "fst (collect_trending_searches ev self region_code region_name w) =
           [(KStr ''region_name'', region_name),
            (KStr ''region_code'', region_code),
            (KStr ''error'', PStr (py_str_exn e)),
            (KStr ''collection_time'', now_iso ev w),
            (KStr ''source'', source_name)]
       \<and> (\<exists>out w'.
            regions_loop ev self True n i (region # rest) acc w = (Inr out, w') \<and>
            length out = length acc + 1 + length rest \<and>
            out ! length acc =
              PDict (fst (collect_trending_searches ev self region_code region_name w)) \<and>
            requests w' = requests w @
              map (\<lambda>x. trending_params self
                     (case x of PDict d \<Rightarrow> get_default d ''code'' PNone | _ \<Rightarrow> PNone))
                  (region # rest))"
proof -
  obtain td w1 where cts: "collect_trending_searches ev self region_code region_name w = (td, w1)"
    by (cases "collect_trending_searches ev self region_code region_name w")
  have td: "td = [(KStr ''region_name'', region_name),
            (KStr ''region_code'', region_code),
            (KStr ''error'', PStr (py_str_exn e)),
            (KStr ''collection_time'', now_iso ev w),
            (KStr ''source'', source_name)]"
    using fails cts trending_try_world[of ev self region_code region_name w]
    by (cases "trending_try ev self region_code region_name w")
       (auto simp: collect_trending_searches_def now_iso_def)
  from regions_loop_total[where rs="region # rest" and self=self and ev=ev and n=n and i=i
         and acc=acc and w=w] region later
  obtain out w' where
    loop: "regions_loop ev self True n i (region # rest) acc w = (Inr out, w')" and
    len: "length out = length acc + length (region # rest)" and
    req: "requests w' = requests w @
              map (\<lambda>x. trending_params self
                     (case x of PDict d \<Rightarrow> get_default d ''code'' PNone | _ \<Rightarrow> PNone))
                  (region # rest)"
    by auto
  let ?w2 = "if int i < int n - 1 then sleep 3 (sleep 2 w1) else sleep 2 w1"
  from loop region cts
  have "regions_loop ev self True n (i + 1) rest (acc @ [PDict td]) ?w2 = (Inr out, w')"
    by (simp split: if_splits)
  from regions_loop_result[OF this]
  have tk: "take (length (acc @ [PDict td])) out = acc @ [PDict td]" by blast
  have "take (length (acc @ [PDict td])) out ! length acc = (acc @ [PDict td]) ! length acc"
    by (simp only: tk)
  then have at: "out ! length acc = PDict td" by simp
  from cts td loop len at req show ?thesis by auto
qed

theorem region_failure_is_contained_witness:
  "fst (collect_trending_searches failing_env (example_collector 2)
          (PStr ''PL'') (PStr ''Poland'') world0) =
           [(KStr ''region_name'', PStr ''Poland''),
            (KStr ''region_code'', PStr ''PL''),
            (KStr ''error'', PStr ''Connection refused''),
            (KStr ''collection_time'', PStr ''2024-01-01T00:00:00''),
            (KStr ''source'', PStr ''SerpAPI Google Trends'')]
   \<and> (\<exists>out w'.
         regions_loop failing_env (example_collector 2) True 2 0 example_regions [] world0
           = (Inr out, w') \<and>
         length out = 2 \<and>
         map (\<lambda>p. dget p ''geo'') (requests w') = [Some (PStr ''PL''), Some (PStr ''DE'')])"
proof -
  let ?self = "example_collector 2"
  let ?de = "PDict [(KStr ''name'', PStr ''Germany''), (KStr ''code'', PStr ''DE'')]"
  have fails: "fst (trending_try failing_env ?self (PStr ''PL'') (PStr ''Poland'') world0)
                 = Inl (Exn ClientError ''Connection refused'')"
    by (simp add: trending_try_def failing_env_def bind_exn_def Let_def)
  have region:
    "PDict [(KStr ''name'', PStr ''Poland''), (KStr ''code'', PStr ''PL'')]
       = PDict [(KStr ''name'', PStr ''Poland''), (KStr ''code'', PStr ''PL'')]"
    "dget [(KStr ''name'', PStr ''Poland''), (KStr ''code'', PStr ''PL'')] ''name''
       = Some (PStr ''Poland'')"
    "dget [(KStr ''name'', PStr ''Poland''), (KStr ''code'', PStr ''PL'')] ''code''
       = Some (PStr ''PL'')"
    by (simp_all add: dget_map_of)
  have later: "\<forall>x \<in> set [?de]. \<exists>d nm cd.
                    x = PDict d \<and> dget d ''name'' = Some nm \<and> dget d ''code'' = Some cd"
    by (simp add: dget_map_of)
  from region_failure_is_contained[OF fails region later, where n=2 and i=0 and acc="[]"]
  show ?thesis
    by (auto simp: example_regions_def now_iso_def failing_env_def world0_def source_name_def
          trending_params_def get_default_def dget_map_of)
qed

section \<open>Responses without trending searches\<close>

text \<open>
  Claim C4. When the response has no \<open>trending_searches\<close> key, the result has an empty
  \<open>trending_searches\<close> list and its \<open>error\<close> is the fixed, non-empty message
  \<open>Brak danych w odpowiedzi SerpAPI\<close>; and when the response has an \<open>error\<close> field, its
  value is the result's \<open>api_error\<close>.
\<close>

theorem response_without_trending_searches:
  assumes response: "get_dict ev (clock w) (trending_params self region_code) = Inr results"
      and absent: "dget results ''trending_searches'' = None"
  shows "fst (collect_trending_searches ev self region_code region_name w) =
           [(KStr ''region_name'', region_name),
            (KStr ''region_code'', region_code),
            (KStr ''collection_time'', now_iso ev w),
            (KStr ''trending_searches'', PList []),
            (KStr ''source'', source_name),
            (KStr ''note'', PStr ''Global trending searches (region-specific may not be available)''),
            (KStr ''error'', PStr ''Brak danych w odpowiedzi SerpAPI'')]
           @ (case dget results ''error'' of
                Some api_err \<Rightarrow> [(KStr ''api_error'', api_err)]
              | None \<Rightarrow> [])
       \<and> ''Brak danych w odpowiedzi SerpAPI'' \<noteq> []"
  using response absent
  by (simp add: collect_trending_searches_def trending_try_def normalize_trending_def
        bind_exn_def Let_def dset_update now_iso_def split: option.splits)

theorem response_without_trending_searches_witness:
  "fst (collect_trending_searches error_env (example_collector 2)
          (PStr ''PL'') (PStr ''Poland'') world0) =
     [(KStr ''region_name'', PStr ''Poland''),
      (KStr ''region_code'', PStr ''PL''),
      (KStr ''collection_time'', PStr ''2024-01-01T00:00:00''),
      (KStr ''trending_searches'', PList []),
      (KStr ''source'', PStr ''SerpAPI Google Trends''),
      (KStr ''note'', PStr ''Global trending searches (region-specific may not be available)''),
      (KStr ''error'', PStr ''Brak danych w odpowiedzi SerpAPI''),
      (KStr ''api_error'', PStr ''Invalid API key'')]"
proof -
  have response: "get_dict error_env (clock world0)
                    (trending_params (example_collector 2) (PStr ''PL'')) = Inr error_results"
    by (simp add: error_env_def)
  have absent: "dget error_results ''trending_searches'' = None"
    by (simp add: error_results_def dget_map_of)
  from response_without_trending_searches[OF response absent, of "PStr ''Poland''"]
  show ?thesis
    by (simp add: error_results_def dget_map_of now_iso_def error_env_def source_name_def)
qed

text \<open>
  Claim C10. The result of \<open>collect_trending_searches\<close> has the field \<open>note\<close>, with the
  value \<open>Global trending searches (region-specific may not be available)\<close>, exactly when
  the body of the \<open>try\<close> completes, whether or not the response held trending data; the
  result of the exception branch has no \<open>note\<close>.
\<close>

theorem note_field_of_result:
  "dget (fst (collect_trending_searches ev self region_code region_name w)) ''note'' =
     (case fst (trending_try ev self region_code region_name w) of
        Inr trending_data \<Rightarrow>
          Some (PStr ''Global trending searches (region-specific may not be available)'')
      | Inl e \<Rightarrow> None)"
proof (cases "trending_try ev self region_code region_name w")
  case (Pair r w1)
  show ?thesis
  proof (cases r)
    case (Inl e)
    with Pair show ?thesis
      by (simp add: collect_trending_searches_def dget_map_of)
  next
    case (Inr d)
    with Pair have "\<exists>results stamp.
        normalize_trending self region_code region_name stamp results = Inr d"
      by (auto simp: trending_try_def Let_def bind_exn_def split: sum.splits)
    with normalize_trending_fields(3) have
      "dget d ''note'' =
         Some (PStr ''Global trending searches (region-specific may not be available)'')"
      by blast
    with Pair Inr show ?thesis
      by (simp add: collect_trending_searches_def)
  qed
qed

section \<open>The simplified projection\<close>

lemma category_of_list:
  "dget trend ''categories'' = Some (PList cats) \<Longrightarrow>
     category_of trend =
       (case cats of
          [] \<Rightarrow> Inr (PStr ''Unknown'')
        | first # others \<Rightarrow> py_get first ''name'' (PStr ''Unknown''))"
  by (cases cats) (simp_all add: category_of_def get_default_def bind_exn_def)

lemma category_of_absent:
  "dget trend ''categories'' = None \<Longrightarrow> category_of trend = Inr (PStr ''Unknown'')"
  by (simp add: category_of_def get_default_def)

lemma category_of_total:
  "list_of (dget trend ''categories'') = Some cats \<Longrightarrow> list_all is_dict cats \<Longrightarrow>
     \<exists>category. category_of trend = Inr category"
proof (cases "dget trend ''categories''")
  case None
  then show ?thesis by (simp add: category_of_absent)
next
  case (Some v)
  assume l: "list_of (dget trend ''categories'') = Some cats" and d: "list_all is_dict cats"
  from l Some have v: "v = PList cats" by (cases v) auto
  show ?thesis
  proof (cases cats)
    case Nil
    with Some v show ?thesis by (simp add: category_of_list)
  next
    case (Cons first others)
    with d obtain c where "first = PDict c" by (cases first) auto
    with Cons Some v show ?thesis by (simp add: category_of_list)
  qed
qed

lemma simple_query_total:
  "trend_shape t \<Longrightarrow> \<exists>trend category.
     t = PDict trend \<and>
     simple_query t = Inr (PDict
         [(KStr ''query'', get_default trend ''query'' PNone),
          (KStr ''search_volume'', get_default trend ''search_volume'' PNone),
          (KStr ''increase_percentage'', get_default trend ''increase_percentage'' PNone),
          (KStr ''category'', category)])"
proof (cases t)
  case (PDict trend)
  assume "trend_shape t"
  with PDict obtain cats where
    "list_of (dget trend ''categories'') = Some cats" "list_all is_dict cats"
    by (auto split: option.splits)
  from category_of_total[OF this] obtain category where "category_of trend = Inr category" ..
  with PDict show ?thesis by (simp add: bind_exn_def)
qed simp_all

lemma list_of_iter:
  "list_of (dget d k) = Some xs \<Longrightarrow> py_iter (get_default d k (PList [])) = Inr xs"
proof (cases "dget d k")
  case None
  assume "list_of (dget d k) = Some xs"
  with None show ?thesis by (simp add: get_default_def)
next
  case (Some v)
  assume "list_of (dget d k) = Some xs"
  with Some show ?thesis by (cases v) (simp_all add: get_default_def)
qed

lemma simple_region_total:
  assumes "region_shape r"
  shows "\<exists>region_data trends qs.
     r = PDict region_data \<and>
     list_of (dget region_data ''trending_searches'') = Some trends \<and>
     collect_each simple_query trends = Inr qs \<and>
     simple_region r = Inr (PDict
         [(KStr ''region_name'', get_default region_data ''region_name'' PNone),
          (KStr ''region_code'', get_default region_data ''region_code'' PNone),
          (KStr ''trending_queries'', PList qs)])"
proof (cases r)
  case (PDict region_data)
  with assms obtain trends where
    trends: "list_of (dget region_data ''trending_searches'') = Some trends" and
    shapes: "list_all trend_shape trends"
    by (auto split: option.splits)
  from shapes have "\<forall>t \<in> set trends. \<exists>q. simple_query t = Inr q"
    using simple_query_total by (fastforce simp: list_all_iff)
  from collect_each_total[OF this] obtain qs where
    qs: "collect_each simple_query trends = Inr qs" ..
  with PDict trends list_of_iter[OF trends] show ?thesis by (simp add: bind_exn_def)
qed (use assms in simp_all)

text \<open>
  Claim C6. For a run with \<open>K\<close> region results, the simplified projection has the fields
  \<open>collection_time\<close> and \<open>regions\<close>, with exactly \<open>K\<close> entries in the order of the run. The
  \<open>i\<close>-th entry has only the fields \<open>region_name\<close> and \<open>region_code\<close> of the \<open>i\<close>-th region
  result and \<open>trending_queries\<close>, which has as many elements as that result's
  \<open>trending_searches\<close>; the \<open>j\<close>-th of them has only \<open>query\<close>, \<open>search_volume\<close> and
  \<open>increase_percentage\<close> of the \<open>j\<close>-th trend, and \<open>category\<close>.
\<close>

theorem create_simple_format_shape:
  assumes shape: "run_shape data"
      and regions: "dget data ''trending_searches_data'' = Some (PList regions)"
  shows "\<exists>collection_time entries.
           create_simple_format data =
             Inr [(KStr ''collection_time'', collection_time), (KStr ''regions'', PList entries)] \<and>
           length entries = length regions \<and>
           (\<forall>i < length regions. \<exists>region_data trends qs.
              regions ! i = PDict region_data \<and>
              list_of (dget region_data ''trending_searches'') = Some trends \<and>
              entries ! i = PDict
                [(KStr ''region_name'', get_default region_data ''region_name'' PNone),
                 (KStr ''region_code'', get_default region_data ''region_code'' PNone),
                 (KStr ''trending_queries'', PList qs)] \<and>
              length qs = length trends \<and>
              (\<forall>j < length trends. \<exists>trend category.
                 trends ! j = PDict trend \<and>
                 qs ! j = PDict
                   [(KStr ''query'', get_default trend ''query'' PNone),
                    (KStr ''search_volume'', get_default trend ''search_volume'' PNone),
                    (KStr ''increase_percentage'', get_default trend ''increase_percentage'' PNone),
                    (KStr ''category'', category)]))"
proof -
  from shape regions have meta: "is_dict (get_default data ''metadata'' (PDict []))"
    and shapes: "list_all region_shape regions"
    by (simp_all add: run_shape_def)
  from meta obtain m where m: "get_default data ''metadata'' (PDict []) = PDict m"
    by (cases "get_default data ''metadata'' (PDict [])") auto
  from shapes have "\<forall>r \<in> set regions. \<exists>y. simple_region r = Inr y"
    using simple_region_total by (fastforce simp: list_all_iff)
  from collect_each_total[OF this] obtain entries where
    entries: "collect_each simple_region regions = Inr entries" ..
  have csf: "create_simple_format data =
       Inr [(KStr ''collection_time'', get_default m ''collection_time'' PNone),
            (KStr ''regions'', PList entries)]"
    using m regions entries
    by (simp add: create_simple_format_def bind_exn_def get_default_def)
  have len: "length entries = length regions"
    using collect_each_length[OF entries] .
  have each: "\<exists>region_data trends qs.
              regions ! i = PDict region_data \<and>
              list_of (dget region_data ''trending_searches'') = Some trends \<and>
              entries ! i = PDict
                [(KStr ''region_name'', get_default region_data ''region_name'' PNone),
                 (KStr ''region_code'', get_default region_data ''region_code'' PNone),
                 (KStr ''trending_queries'', PList qs)] \<and>
              length qs = length trends \<and>
              (\<forall>j < length trends. \<exists>trend category.
                 trends ! j = PDict trend \<and>
                 qs ! j = PDict
                   [(KStr ''query'', get_default trend ''query'' PNone),
                    (KStr ''search_volume'', get_default trend ''search_volume'' PNone),
                    (KStr ''increase_percentage'', get_default trend ''increase_percentage'' PNone),
                    (KStr ''category'', category)])"
    if i: "i < length regions" for i
  proof -
    from i shapes have "region_shape (regions ! i)" by (simp add: list_all_length)
    from simple_region_total[OF this] obtain region_data trends qs where
      r: "regions ! i = PDict region_data" and
      trends: "list_of (dget region_data ''trending_searches'') = Some trends" and
      qs: "collect_each simple_query trends = Inr qs" and
      sr: "simple_region (regions ! i) = Inr (PDict
         [(KStr ''region_name'', get_default region_data ''region_name'' PNone),
          (KStr ''region_code'', get_default region_data ''region_code'' PNone),
          (KStr ''trending_queries'', PList qs)])"
      by blast
    from collect_each_nth[OF entries i] sr have entry: "entries ! i = PDict
         [(KStr ''region_name'', get_default region_data ''region_name'' PNone),
          (KStr ''region_code'', get_default region_data ''region_code'' PNone),
          (KStr ''trending_queries'', PList qs)]"
      by simp
    from r \<open>region_shape (regions ! i)\<close> trends have tshapes: "list_all trend_shape trends"
      by simp
    have "\<exists>trend category.
                 trends ! j = PDict trend \<and>
                 qs ! j = PDict
                   [(KStr ''query'', get_default trend ''query'' PNone),
                    (KStr ''search_volume'', get_default trend ''search_volume'' PNone),
                    (KStr ''increase_percentage'', get_default trend ''increase_percentage'' PNone),
                    (KStr ''category'', category)]"
      if j: "j < length trends" for j
    proof -
      from j tshapes have "trend_shape (trends ! j)" by (simp add: list_all_length)
      from simple_query_total[OF this] collect_each_nth[OF qs j] show ?thesis by auto
    qed
    with r trends entry collect_each_length[OF qs] show ?thesis by blast
  qed
  from csf len each show ?thesis by blast
qed

theorem create_simple_format_shape_witness:
  "\<exists>entries qs.
     create_simple_format example_run =
       Inr [(KStr ''collection_time'', PStr ''2024-01-01T00:00:00''),
            (KStr ''regions'', PList entries)] \<and>
     length entries = 1 \<and>
     entries ! 0 = PDict [(KStr ''region_name'', PStr ''Poland''),
                          (KStr ''region_code'', PStr ''PL''),
                          (KStr ''trending_queries'', PList qs)] \<and>
     length qs = 2"
proof -
  let ?regions = "case dget example_run ''trending_searches_data'' of Some (PList rs) \<Rightarrow> rs"
  have shape: "run_shape example_run"
    by (simp add: run_shape_def example_run_def get_default_def dget_map_of)
  have regions: "dget example_run ''trending_searches_data'' = Some (PList ?regions)"
    by (simp add: example_run_def dget_map_of)
  from create_simple_format_shape[OF shape regions]
  show ?thesis
    by (simp add: example_run_def dget_map_of get_default_def create_simple_format_def bind_exn_def
          category_of_def)
qed

lemma simple_query_category:
  assumes "trend_shape t"
  shows "\<exists>trend q.
     t = PDict trend \<and> simple_query t = Inr (PDict q) \<and>
     (list_of (dget trend ''categories'') = Some []
        \<longrightarrow> dget q ''category'' = Some (PStr ''Unknown'')) \<and>
     (\<forall>first others name.
        list_of (dget trend ''categories'') = Some (PDict first # others) \<and>
        dget first ''name'' = Some name
        \<longrightarrow> dget q ''category'' = Some name)"
proof (cases t)
  case (PDict trend)
  with assms obtain cats where
    cats: "list_of (dget trend ''categories'') = Some cats" and dicts: "list_all is_dict cats"
    by (auto split: option.splits)
  from category_of_total[OF cats dicts] obtain category where
    cat: "category_of trend = Inr category" ..
  let ?q = "[(KStr ''query'', get_default trend ''query'' PNone),
          (KStr ''search_volume'', get_default trend ''search_volume'' PNone),
          (KStr ''increase_percentage'', get_default trend ''increase_percentage'' PNone),
          (KStr ''category'', category)]"
  have sq: "simple_query t = Inr (PDict ?q)"
    using PDict cat by (simp add: bind_exn_def)
  have q: "dget ?q ''category'' = Some category"
    by (simp add: dget_map_of)
  have empty: "category = PStr ''Unknown''" if "list_of (dget trend ''categories'') = Some []"
  proof (cases "dget trend ''categories''")
    case None
    with cat show ?thesis by (simp add: category_of_absent)
  next
    case (Some v)
    with that have "v = PList []" by (cases v) auto
    with Some cat show ?thesis by (simp add: category_of_list)
  qed
  have named: "category = name"
    if "list_of (dget trend ''categories'') = Some (PDict first # others)"
       "dget first ''name'' = Some name" for first others name
  proof (cases "dget trend ''categories''")
    case None
    with that show ?thesis by simp
  next
    case (Some v)
    with that(1) have "v = PList (PDict first # others)" by (cases v) auto
    with Some cat that(2) show ?thesis by (simp add: category_of_list get_default_def)
  qed
  from PDict sq q empty named show ?thesis by auto
qed (use assms in simp_all)

lemma simple_region_category:
  assumes "region_shape r"
  shows "\<exists>region_data trends entry qs.
     r = PDict region_data \<and>
     list_of (dget region_data ''trending_searches'') = Some trends \<and>
     simple_region r = Inr (PDict entry) \<and>
     dget entry ''trending_queries'' = Some (PList qs) \<and>
     collect_each simple_query trends = Inr qs \<and>
     list_all trend_shape trends"
proof -
  from simple_region_total[OF assms] obtain region_data trends qs where
    r: "r = PDict region_data" and
    trends: "list_of (dget region_data ''trending_searches'') = Some trends" and
    qs: "collect_each simple_query trends = Inr qs" and
    sr: "simple_region r = Inr (PDict
         [(KStr ''region_name'', get_default region_data ''region_name'' PNone),
          (KStr ''region_code'', get_default region_data ''region_code'' PNone),
          (KStr ''trending_queries'', PList qs)])"
    by blast
  from assms r trends have "list_all trend_shape trends" by simp
  moreover have "dget [(KStr ''region_name'', get_default region_data ''region_name'' PNone),
          (KStr ''region_code'', get_default region_data ''region_code'' PNone),
          (KStr ''trending_queries'', PList qs)] ''trending_queries'' = Some (PList qs)"
    by (simp add: dget_map_of)
  ultimately show ?thesis using r trends qs sr by blast
qed

text \<open>
  Claim C5. For a run of the documented shape, the simplified projection holds, for the
  \<open>j\<close>-th trend record of the \<open>i\<close>-th region result, the \<open>j\<close>-th query of the \<open>i\<close>-th entry,
  and the \<open>category\<close> of that query is the \<open>name\<close> of the first entry of the record's
  \<open>categories\<close> when that list is not empty, and \<open>Unknown\<close> when it is empty.
\<close>

theorem create_simple_format_category:
  assumes shape: "run_shape data"
      and regions: "dget data ''trending_searches_data'' = Some (PList regions)"
  shows "\<exists>collection_time entries.
           create_simple_format data =
             Inr [(KStr ''collection_time'', collection_time), (KStr ''regions'', PList entries)] \<and>
           length entries = length regions \<and>
           (\<forall>i < length regions. \<exists>region_data trends entry qs.
              regions ! i = PDict region_data \<and>
              list_of (dget region_data ''trending_searches'') = Some trends \<and>
              entries ! i = PDict entry \<and>
              dget entry ''trending_queries'' = Some (PList qs) \<and>
              length qs = length trends \<and>
              (\<forall>j < length trends. \<exists>trend q.
                 trends ! j = PDict trend \<and> qs ! j = PDict q \<and>
                 (list_of (dget trend ''categories'') = Some []
                    \<longrightarrow> dget q ''category'' = Some (PStr ''Unknown'')) \<and>
                 (\<forall>first others name.
                    list_of (dget trend ''categories'') = Some (PDict first # others) \<and>
                    dget first ''name'' = Some name
                    \<longrightarrow> dget q ''category'' = Some name)))"
proof -
  from shape regions have meta: "is_dict (get_default data ''metadata'' (PDict []))"
    and shapes: "list_all region_shape regions"
    by (simp_all add: run_shape_def)
  from meta obtain m where m: "get_default data ''metadata'' (PDict []) = PDict m"
    by (cases "get_default data ''metadata'' (PDict [])") auto
  from shapes have "\<forall>r \<in> set regions. \<exists>y. simple_region r = Inr y"
    using simple_region_total by (fastforce simp: list_all_iff)
  from collect_each_total[OF this] obtain entries where
    entries: "collect_each simple_region regions = Inr entries" ..
  have csf: "create_simple_format data =
       Inr [(KStr ''collection_time'', get_default m ''collection_time'' PNone),
            (KStr ''regions'', PList entries)]"
    using m regions entries
    by (simp add: create_simple_format_def bind_exn_def get_default_def)
  have len: "length entries = length regions"
    using collect_each_length[OF entries] .
  have each: "\<exists>region_data trends entry qs.
              regions ! i = PDict region_data \<and>
              list_of (dget region_data ''trending_searches'') = Some trends \<and>
              entries ! i = PDict entry \<and>
              dget entry ''trending_queries'' = Some (PList qs) \<and>
              length qs = length trends \<and>
              (\<forall>j < length trends. \<exists>trend q.
                 trends ! j = PDict trend \<and> qs ! j = PDict q \<and>
                 (list_of (dget trend ''categories'') = Some []
                    \<longrightarrow> dget q ''category'' = Some (PStr ''Unknown'')) \<and>
                 (\<forall>first others name.
                    list_of (dget trend ''categories'') = Some (PDict first # others) \<and>
                    dget first ''name'' = Some name
                    \<longrightarrow> dget q ''category'' = Some name))"
    if i: "i < length regions" for i
  proof -
    from i shapes have "region_shape (regions ! i)" by (simp add: list_all_length)
    from simple_region_category[OF this] obtain region_data trends entry qs where
      r: "regions ! i = PDict region_data" and
      trends: "list_of (dget region_data ''trending_searches'') = Some trends" and
      sr: "simple_region (regions ! i) = Inr (PDict entry)" and
      tq: "dget entry ''trending_queries'' = Some (PList qs)" and
      qs: "collect_each simple_query trends = Inr qs" and
      tshapes: "list_all trend_shape trends"
      by blast
    from collect_each_nth[OF entries i] sr have entry: "entries ! i = PDict entry" by simp
    have "\<exists>trend q.
                 trends ! j = PDict trend \<and> qs ! j = PDict q \<and>
                 (list_of (dget trend ''categories'') = Some []
                    \<longrightarrow> dget q ''category'' = Some (PStr ''Unknown'')) \<and>
                 (\<forall>first others name.
                    list_of (dget trend ''categories'') = Some (PDict first # others) \<and>
                    dget first ''name'' = Some name
                    \<longrightarrow> dget q ''category'' = Some name)"
      if j: "j < length trends" for j
    proof -
      from j tshapes have "trend_shape (trends ! j)" by (simp add: list_all_length)
      from simple_query_category[OF this] collect_each_nth[OF qs j] show ?thesis by auto
    qed
    with r trends entry tq collect_each_length[OF qs] show ?thesis by blast
  qed
  from csf len each show ?thesis by blast
qed

theorem create_simple_format_category_witness:
  "\<exists>collection_time entries entry qs q0 q1.
     create_simple_format example_run =
       Inr [(KStr ''collection_time'', collection_time), (KStr ''regions'', PList entries)] \<and>
     length entries = 1 \<and>
     entries ! 0 = PDict entry \<and>
     dget entry ''trending_queries'' = Some (PList qs) \<and>
     length qs = 2 \<and>
     qs ! 0 = PDict q0 \<and> dget q0 ''category'' = Some (PStr ''Sports'') \<and>
     qs ! 1 = PDict q1 \<and> dget q1 ''category'' = Some (PStr ''Unknown'')"
proof -
  define sports where "sports = [(KStr ''id'', PInt 17), (KStr ''name'', PStr ''Sports'')]"
  define t0 where "t0 =
             [(KStr ''query'', PStr ''a''),
              (KStr ''search_volume'', PInt 10),
              (KStr ''increase_percentage'', PInt 50),
              (KStr ''active'', PBool True),
              (KStr ''categories'', PList [PDict sports]),
              (KStr ''related_queries'', PList []),
              (KStr ''start_timestamp'', PInt 0)]"
  define t1 where "t1 =
             [(KStr ''query'', PStr ''b''),
              (KStr ''search_volume'', PInt 0),
              (KStr ''increase_percentage'', PInt 0),
              (KStr ''active'', PBool True),
              (KStr ''categories'', PList []),
              (KStr ''related_queries'', PList []),
              (KStr ''start_timestamp'', PInt 0)]"
  define r0 where "r0 =
            [(KStr ''region_name'', PStr ''Poland''),
             (KStr ''region_code'', PStr ''PL''),
             (KStr ''collection_time'', PStr ''2024-01-01T00:00:05''),
             (KStr ''trending_searches'', PList [PDict t0, PDict t1]),
             (KStr ''source'', PStr ''SerpAPI Google Trends'')]"
  have run: "example_run =
     [(KStr ''metadata'', PDict [(KStr ''collection_time'', PStr ''2024-01-01T00:00:00'')]),
      (KStr ''trending_searches_data'', PList [PDict r0])]"
    by (simp add: example_run_def r0_def t0_def t1_def sports_def)
  have cat0: "list_of (dget t0 ''categories'') = Some (PDict sports # [])"
    by (simp add: t0_def dget_map_of)
  have name0: "dget sports ''name'' = Some (PStr ''Sports'')"
    by (simp add: sports_def dget_map_of)
  have cat1: "list_of (dget t1 ''categories'') = Some []"
    by (simp add: t1_def dget_map_of)
  have tr: "list_of (dget r0 ''trending_searches'') = Some [PDict t0, PDict t1]"
    by (simp add: r0_def dget_map_of)
  have shape: "run_shape example_run"
    using cat0 cat1 tr by (simp add: run_shape_def run get_default_def dget_map_of sports_def)
  have regions: "dget example_run ''trending_searches_data'' = Some (PList [PDict r0])"
    by (simp add: run dget_map_of)
  from create_simple_format_category[OF shape regions] obtain collection_time entries where
    csf: "create_simple_format example_run =
             Inr [(KStr ''collection_time'', collection_time), (KStr ''regions'', PList entries)]"
    and len: "length entries = length [PDict r0]"
    and each: "\<forall>i < length [PDict r0]. \<exists>region_data trends entry qs.
              [PDict r0] ! i = PDict region_data \<and>
              list_of (dget region_data ''trending_searches'') = Some trends \<and>
              entries ! i = PDict entry \<and>
              dget entry ''trending_queries'' = Some (PList qs) \<and>
              length qs = length trends \<and>
              (\<forall>j < length trends. \<exists>trend q.
                 trends ! j = PDict trend \<and> qs ! j = PDict q \<and>
                 (list_of (dget trend ''categories'') = Some []
                    \<longrightarrow> dget q ''category'' = Some (PStr ''Unknown'')) \<and>
                 (\<forall>first others name.
                    list_of (dget trend ''categories'') = Some (PDict first # others) \<and>
                    dget first ''name'' = Some name
                    \<longrightarrow> dget q ''category'' = Some name))"
    by (elim exE conjE)
  have "0 < length [PDict r0]" by simp
  from each[rule_format, OF this] obtain region_data trends entry qs where
    r: "[PDict r0] ! 0 = PDict region_data" and
    trends: "list_of (dget region_data ''trending_searches'') = Some trends" and
    entry: "entries ! 0 = PDict entry" and
    tq: "dget entry ''trending_queries'' = Some (PList qs)" and
    lqs: "length qs = length trends" and
    cats: "\<forall>j < length trends. \<exists>trend q.
                 trends ! j = PDict trend \<and> qs ! j = PDict q \<and>
                 (list_of (dget trend ''categories'') = Some []
                    \<longrightarrow> dget q ''category'' = Some (PStr ''Unknown'')) \<and>
                 (\<forall>first others name.
                    list_of (dget trend ''categories'') = Some (PDict first # others) \<and>
                    dget first ''name'' = Some name
                    \<longrightarrow> dget q ''category'' = Some name)"
    by blast
  from r have "region_data = r0" by simp
  with trends tr have trs: "trends = [PDict t0, PDict t1]" by simp
  then have "0 < length trends" by simp
  from cats[rule_format, OF this] obtain trend0 q0 where
    t0': "trends ! 0 = PDict trend0" and q0: "qs ! 0 = PDict q0" and
    n0: "\<forall>first others name.
           list_of (dget trend0 ''categories'') = Some (PDict first # others) \<and>
           dget first ''name'' = Some name
           \<longrightarrow> dget q0 ''category'' = Some name"
    by blast
  from t0' trs have "trend0 = t0" by simp
  with n0 cat0 name0 have c0: "dget q0 ''category'' = Some (PStr ''Sports'')" by blast
  from trs have "1 < length trends" by simp
  from cats[rule_format, OF this] obtain trend1 q1 where
    t1': "trends ! 1 = PDict trend1" and q1: "qs ! 1 = PDict q1" and
    e1: "list_of (dget trend1 ''categories'') = Some []
           \<longrightarrow> dget q1 ''category'' = Some (PStr ''Unknown'')"
    by blast
  from t1' trs have "trend1 = t1" by simp
  with e1 cat1 have c1: "dget q1 ''category'' = Some (PStr ''Unknown'')" by blast
  from lqs trs have l2: "length qs = 2" by simp
  from len have l1: "length entries = 1" by simp
  from csf l1 entry tq l2 q0 c0 q1 c1 show ?thesis by blast
qed

section \<open>The name of the simplified file\<close>

text \<open>
  Claim C7 at the output file \<open>trends.txt\<close>. The name has no \<open>.json\<close> to replace, so the
  simplified file has the name of the full file, and after \<open>save_to_json\<close> that file holds
  the simplified projection: the full data are overwritten. For the default name the
  suffix goes before the extension.
\<close>

theorem simple_file_overwrites_full_file:
  "simple_filename_of ''trends.txt'' = ''trends.txt'' \<and>
   save_to_json example_env (example_collector 2) example_run (PStr ''trends.txt'') world0 =
     (Inr (),
      \<lparr>clock = 0, requests = [],
       files = [(''trends.txt'', PDict
         [(KStr ''collection_time'', PStr ''2024-01-01T00:00:00''),
          (KStr ''regions'', PList
             [PDict
                [(KStr ''region_name'', PStr ''Poland''),
                 (KStr ''region_code'', PStr ''PL''),
                 (KStr ''trending_queries'', PList
                    [PDict [(KStr ''query'', PStr ''a''),
                            (KStr ''search_volume'', PInt 10),
                            (KStr ''increase_percentage'', PInt 50),
                            (KStr ''category'', PStr ''Sports'')],
                     PDict [(KStr ''query'', PStr ''b''),
                            (KStr ''search_volume'', PInt 0),
                            (KStr ''increase_percentage'', PInt 0),
                            (KStr ''category'', PStr ''Unknown'')]])]])])],
       fd_written = []\<rparr>) \<and>
   simple_filename_of ''trends_data.json'' = ''trends_data_simple.json''"
  by (simp add: simple_filename_of_def save_to_json_def example_env_def example_run_def
        world0_def create_simple_format_def category_of_def get_default_def dget_map_of
        bind_exn_def)

section \<open>Required and optional settings\<close>

lemma regions_loop_disabled:
  "\<forall>region \<in> set rs. \<exists>d nm cd. region = PDict d \<and> dget d ''name'' = Some nm \<and> dget d ''code'' = Some cd
   \<Longrightarrow> \<exists>w'. regions_loop ev self False n i rs acc w = (Inr acc, w')
         \<and> requests w' = requests w \<and> files w' = files w"
proof (induction rs arbitrary: i w)
  case Nil
  then show ?case by simp
next
  case (Cons region rest)
  from Cons.prems obtain d nm cd where
    region: "region = PDict d" "dget d ''name'' = Some nm" "dget d ''code'' = Some cd"
    by auto
  let ?w2 = "if int i < int n - 1 then sleep 3 w else w"
  from Cons.prems have "\<forall>region \<in> set rest. \<exists>d nm cd.
      region = PDict d \<and> dget d ''name'' = Some nm \<and> dget d ''code'' = Some cd"
    by simp
  from Cons.IH[OF this, of "i + 1" ?w2] obtain w' where
    "regions_loop ev self False n (i + 1) rest acc ?w2 = (Inr acc, w')"
    "requests w' = requests ?w2" "files w' = files ?w2"
    by blast
  with region show ?case by (auto simp: sleep_def split: if_splits)
qed

lemma collect_all_trends_requires:
  "dget (config self) ''keywords'' = None \<Longrightarrow>
     collect_all_trends ev self w = (Inl (Exn KeyError (quoted ''keywords'')), w)"
  "dget (config self) ''keywords'' = Some kw \<Longrightarrow> dget (config self) ''regions'' = None \<Longrightarrow>
     collect_all_trends ev self w = (Inl (Exn KeyError (quoted ''regions'')), w)"
  by (simp_all add: collect_all_trends_def)

text \<open>
  Claim C8, as amended. With \<open>keywords\<close> and \<open>regions\<close> (a list of dictionaries with
  \<open>name\<close> and \<open>code\<close>) in the settings, the run returns when \<open>timeframe\<close>,
  \<open>trending_searches.enabled\<close> and \<open>output_file\<close> are absent and the two default files
  can be written: the timeframe is \<open>today 3-m\<close>, collection of trending searches is off,
  and the data are in \<open>trends_data.json\<close>. When \<open>trending_searches.count\<close> is absent,
  normalization keeps the first 20 items. When \<open>keywords\<close> or \<open>regions\<close> is absent, the
  run raises \<open>KeyError\<close> before it requests anything.
\<close>

theorem optional_settings:
  "(dget cfg ''keywords'' = Some keywords \<and>
    dget cfg ''regions'' = Some (PList rs) \<and>
    (\<forall>region \<in> set rs. \<exists>d nm cd.
        region = PDict d \<and> dget d ''name'' = Some nm \<and> dget d ''code'' = Some cd) \<and>
    dget cfg ''timeframe'' = None \<and>
    get_default cfg ''trending_searches'' (PDict []) = PDict ts \<and> dget ts ''enabled'' = None \<and>
    dget cfg ''output_file'' = None \<and>
    opens ev ''trends_data.json'' = None \<and> opens ev ''trends_data_simple.json'' = None
    \<longrightarrow> (\<exists>data meta w'.
           run ev \<lparr>config = cfg, api_key = key\<rparr> w = (Inr data, w') \<and>
           dget data ''metadata'' = Some (PDict meta) \<and>
           dget meta ''timeframe'' = Some (PStr ''today 3-m'') \<and>
           dget meta ''trending_searches_enabled'' = Some (PBool False) \<and>
           dget data ''trending_searches_data'' = Some (PList []) \<and>
           requests w' = requests w \<and>
           map_of (files w') ''trends_data.json'' = Some (PDict data)))
 \<and> (get_default cfg ''trending_searches'' (PDict []) = PDict ts \<and> dget ts ''count'' = None \<and>
    dget results ''trending_searches'' = Some (PList items) \<and>
    (\<forall>t \<in> set (take 20 items). \<exists>d. t = PDict d)
    \<longrightarrow> (\<exists>d recs.
           normalize_trending \<lparr>config = cfg, api_key = key\<rparr> region_code region_name stamp results
             = Inr d \<and>
           dget d ''trending_searches'' = Some (PList recs) \<and>
           length recs = min (length items) 20))
 \<and> (dget cfg ''keywords'' = None \<or> dget cfg ''regions'' = None
    \<longrightarrow> (\<exists>k. run ev \<lparr>config = cfg, api_key = key\<rparr> w = (Inl (Exn KeyError k), w)))"
proof (intro conjI impI)
  let ?self = "\<lparr>config = cfg, api_key = key\<rparr>"
  assume a: "dget cfg ''keywords'' = Some keywords \<and>
    dget cfg ''regions'' = Some (PList rs) \<and>
    (\<forall>region \<in> set rs. \<exists>d nm cd.
        region = PDict d \<and> dget d ''name'' = Some nm \<and> dget d ''code'' = Some cd) \<and>
    dget cfg ''timeframe'' = None \<and>
    get_default cfg ''trending_searches'' (PDict []) = PDict ts \<and> dget ts ''enabled'' = None \<and>
    dget cfg ''output_file'' = None \<and>
    opens ev ''trends_data.json'' = None \<and> opens ev ''trends_data_simple.json'' = None"
  then have wf: "\<forall>region \<in> set rs. \<exists>d nm cd.
        region = PDict d \<and> dget d ''name'' = Some nm \<and> dget d ''code'' = Some cd"
    by blast
  from regions_loop_disabled[OF wf, of ev ?self "length rs" 0 "[]" w] obtain w1 where
    loop: "regions_loop ev ?self False (length rs) 0 rs [] w = (Inr [], w1)" and
    req: "requests w1 = requests w" and fl: "files w1 = files w"
    by blast
  let ?meta = "[(KStr ''collection_time'', now_iso ev w),
             (KStr ''keywords'', keywords),
             (KStr ''total_regions'', PInt (int (length rs))),
             (KStr ''timeframe'', PStr ''today 3-m''),
             (KStr ''trending_searches_enabled'', PBool False),
             (KStr ''source'', source_name),
             (KStr ''api_usage_note'', PStr ''Each request uses your SerpAPI quota'')]"
  let ?data = "[(KStr ''metadata'', PDict ?meta), (KStr ''trending_searches_data'', PList [])]"
  have collect: "collect_all_trends ev ?self w = (Inr ?data, w1)"
    using a loop by (simp add: collect_all_trends_def get_default_def)
  have simple: "create_simple_format ?data =
      Inr [(KStr ''collection_time'', now_iso ev w), (KStr ''regions'', PList [])]"
    by (simp add: create_simple_format_def get_default_def dget_map_of bind_exn_def)
  have name: "str_replace ''trends_data.json'' ''.json'' ''_simple.json''
                = ''trends_data_simple.json''"
    by simp
  let ?w2 = "w1\<lparr>files := AList.update ''trends_data_simple.json''
                 (PDict [(KStr ''collection_time'', now_iso ev w), (KStr ''regions'', PList [])])
                 (AList.update ''trends_data.json'' (PDict ?data) (files w1))\<rparr>"
  have save: "save_to_json ev ?self ?data PNone w1 = (Inr (), ?w2)"
    using a simple name by (simp add: save_to_json_def get_default_def)
  have "run ev ?self w = (Inr ?data, ?w2)"
    using collect save a by (simp add: run_def get_default_def)
  moreover have "map_of (files ?w2) ''trends_data.json'' = Some (PDict ?data)"
    by (simp add: update_conv')
  moreover have "requests ?w2 = requests w" using req by simp
  ultimately show "\<exists>data meta w'.
           run ev ?self w = (Inr data, w') \<and>
           dget data ''metadata'' = Some (PDict meta) \<and>
           dget meta ''timeframe'' = Some (PStr ''today 3-m'') \<and>
           dget meta ''trending_searches_enabled'' = Some (PBool False) \<and>
           dget data ''trending_searches_data'' = Some (PList []) \<and>
           requests w' = requests w \<and>
           map_of (files w') ''trends_data.json'' = Some (PDict data)"
    by (intro exI[of _ ?data] exI[of _ ?meta] exI[of _ ?w2]) (simp add: dget_map_of)
next
  let ?self = "\<lparr>config = cfg, api_key = key\<rparr>"
  assume b: "get_default cfg ''trending_searches'' (PDict []) = PDict ts \<and> dget ts ''count'' = None \<and>
    dget results ''trending_searches'' = Some (PList items) \<and>
    (\<forall>t \<in> set (take 20 items). \<exists>d. t = PDict d)"
  then have found: "dget results ''trending_searches'' = Some (PList items)"
    and cnt: "py_get (get_default (config ?self) ''trending_searches'' (PDict []))
                  ''count'' (PInt 20) = Inr (PInt 20)"
    and dicts: "\<forall>t \<in> set (take (nat 20) items). \<exists>d. t = PDict d"
    by (simp_all add: get_default_def)
  have nonneg: "(0::int) \<le> 20" by simp
  from normalize_trending_take[OF found cnt nonneg dicts, of region_code region_name stamp]
  obtain recs where
    recs: "collect_each trend_record (take (nat 20) items) = Inr recs" and
    norm: "normalize_trending ?self region_code region_name stamp results =
             Inr [(KStr ''region_name'', region_name),
                  (KStr ''region_code'', region_code),
                  (KStr ''collection_time'', stamp),
                  (KStr ''trending_searches'', PList recs),
                  (KStr ''source'', source_name),
                  (KStr ''note'', PStr ''Global trending searches (region-specific may not be available)'')]"
    by blast
  from collect_each_length[OF recs] have "length recs = min (length items) 20" by simp
  with norm show "\<exists>d recs.
           normalize_trending ?self region_code region_name stamp results = Inr d \<and>
           dget d ''trending_searches'' = Some (PList recs) \<and>
           length recs = min (length items) 20"
    by (simp add: dget_map_of)
next
  let ?self = "\<lparr>config = cfg, api_key = key\<rparr>"
  assume c: "dget cfg ''keywords'' = None \<or> dget cfg ''regions'' = None"
  show "\<exists>k. run ev ?self w = (Inl (Exn KeyError k), w)"
  proof (cases "dget cfg ''keywords''")
    case None
    with collect_all_trends_requires(1)[of ?self ev w] show ?thesis
      by (simp add: run_def)
  next
    case (Some kw)
    with c have "dget cfg ''regions'' = None" by simp
    with Some collect_all_trends_requires(2)[of ?self kw ev w] show ?thesis
      by (simp add: run_def)
  qed
qed

theorem optional_settings_witness:
  "(\<exists>data meta w'.
      run example_env \<lparr>config = config_required_only, api_key = PStr ''secret''\<rparr> world0
        = (Inr data, w') \<and>
      dget data ''metadata'' = Some (PDict meta) \<and>
      dget meta ''timeframe'' = Some (PStr ''today 3-m'') \<and>
      dget meta ''trending_searches_enabled'' = Some (PBool False) \<and>
      map_of (files w') ''trends_data.json'' = Some (PDict data))
 \<and> (\<exists>d recs.
      normalize_trending \<lparr>config = config_required_only, api_key = PStr ''secret''\<rparr>
        (PStr ''PL'') (PStr ''Poland'') (PStr ''2024-01-01T00:00:00'') example_results = Inr d \<and>
      dget d ''trending_searches'' = Some (PList recs) \<and> length recs = 3)
 \<and> (\<exists>k. run example_env \<lparr>config = config_without_regions, api_key = PStr ''secret''\<rparr> world0
        = (Inl (Exn KeyError k), world0))"
proof -
  have h1: "dget config_required_only ''keywords'' = Some (PList [PStr ''python'']) \<and>
    dget config_required_only ''regions'' = Some (PList example_regions) \<and>
    (\<forall>region \<in> set example_regions. \<exists>d nm cd.
        region = PDict d \<and> dget d ''name'' = Some nm \<and> dget d ''code'' = Some cd) \<and>
    dget config_required_only ''timeframe'' = None \<and>
    get_default config_required_only ''trending_searches'' (PDict []) = PDict [] \<and>
    dget [] ''enabled'' = None \<and>
    dget config_required_only ''output_file'' = None \<and>
    opens example_env ''trends_data.json'' = None \<and>
    opens example_env ''trends_data_simple.json'' = None"
    by (simp add: config_required_only_def example_regions_def example_env_def
          get_default_def dget_map_of)
  have h2: "get_default config_required_only ''trending_searches'' (PDict []) = PDict [] \<and>
    dget [] ''count'' = None \<and>
    dget example_results ''trending_searches'' = Some (PList example_items) \<and>
    (\<forall>t \<in> set (take 20 example_items). \<exists>d. t = PDict d)"
    by (simp add: config_required_only_def example_results_def example_items_def
          get_default_def dget_map_of)
  have h3: "dget config_without_regions ''keywords'' = None \<or>
            dget config_without_regions ''regions'' = None"
    by (simp add: config_without_regions_def dget_map_of)
  have l3: "min (length example_items) 20 = 3" by (simp add: example_items_def)
  from optional_settings[THEN conjunct1, rule_format, OF h1,
          where key="PStr ''secret''" and w=world0]
       optional_settings[THEN conjunct2, THEN conjunct1, rule_format, OF h2,
          where key="PStr ''secret''" and region_code="PStr ''PL''"
            and region_name="PStr ''Poland''" and stamp="PStr ''2024-01-01T00:00:00''"]
       optional_settings[THEN conjunct2, THEN conjunct2, rule_format, OF h3,
          where key="PStr ''secret''" and ev=example_env and w=world0]
       l3
  show ?thesis by (auto simp del: ex_simps)
qed

text \<open>
  Claim C8 as stated fails: a configuration with the key but without \<open>keywords\<close> is
  accepted by the constructor, and the run raises \<open>KeyError\<close> at \<open>config['keywords']\<close>.
\<close>

theorem run_without_keywords:
  "init_collector (PDict config_without_keywords) =
     Inr \<lparr>config = config_without_keywords, api_key = PStr ''secret''\<rparr> \<and>
   run example_env \<lparr>config = config_without_keywords, api_key = PStr ''secret''\<rparr> world0 =
     (Inl (Exn KeyError (quoted ''keywords'')), world0)"
  by (simp add: config_without_keywords_def run_def collect_all_trends_def get_default_def
        dget_map_of Let_def)

section \<open>Interest over time\<close>


lemma map_of_foldl_update:
  "map_of (foldl (\<lambda>d (k, v). AList.update k v d) d0 pairs) = map_of (rev pairs @ d0)"
proof (induction pairs arbitrary: d0)
  case Nil
  then show ?case by simp
next
  case (Cons p ps)
  obtain k v where p: "p = (k, v)" by (cases p)
  have "map_of (rev ps @ AList.update k v d0) = map_of (rev ps @ (k, v) # d0)"
    by (rule ext) (simp add: map_add_def update_conv' split: option.splits)
  with Cons.IH[of "AList.update k v d0"] p show ?case by simp
qed

lemma foldl_update_fresh:
  "distinct (map fst pairs) \<Longrightarrow> set (map fst pairs) \<inter> set (map fst d0) = {} \<Longrightarrow>
     foldl (\<lambda>d (k, v). AList.update k v d) d0 pairs = d0 @ pairs"
proof (induction pairs arbitrary: d0)
  case Nil
  then show ?case by simp
next
  case (Cons p ps)
  obtain k v where p: "p = (k, v)" by (cases p)
  with Cons.prems have fresh: "k \<notin> fst ` set d0" by auto
  then have upd: "AList.update k v d0 = d0 @ [(k, v)]"
    by (induction d0) auto
  from Cons.prems p have "distinct (map fst ps)"
    and "set (map fst ps) \<inter> set (map fst (d0 @ [(k, v)])) = {}"
    by auto
  from Cons.IH[OF this] p upd show ?case by simp
qed

lemma foldl_dict_update_strings:
  "\<forall>p \<in> set pairs. \<exists>s. fst p = KStr s \<Longrightarrow>
     foldl (\<lambda>d (k, v). dict_update k v d) d0 pairs =
     foldl (\<lambda>d (k, v). AList.update k v d) d0 pairs"
proof (induction pairs arbitrary: d0)
  case Nil
  then show ?case by simp
next
  case (Cons p ps)
  from Cons.prems obtain s v where p: "p = (KStr s, v)" by (cases p) auto
  have "dict_update (KStr s) v d0 = AList.update (KStr s) v d0"
    using dset_update[of d0 s v] by (simp add: dset_def)
  with Cons p show ?case by simp
qed

text \<open>As a mapping from strings, \<open>dict(pairs)\<close> gives each key the value of its last
  pair; with keys that are all different it is the list of the pairs.\<close>

lemma map_of_py_dict:
  "\<forall>p \<in> set pairs. \<exists>s. fst p = KStr s \<Longrightarrow> map_of (py_dict pairs) = map_of (rev pairs)"
  by (simp add: py_dict_def foldl_dict_update_strings map_of_foldl_update)

lemma py_dict_distinct:
  "\<forall>p \<in> set pairs. \<exists>s. fst p = KStr s \<Longrightarrow> distinct (map fst pairs) \<Longrightarrow>
     py_dict pairs = pairs"
  using foldl_update_fresh[of pairs "[]"]
  by (simp add: py_dict_def foldl_dict_update_strings)

lemma zip_values_foldl:
  "list_all is_dict vs \<Longrightarrow>
     zip_values (PList vs) i kws row =
       Inr (foldl (\<lambda>d (k, v). dict_update k v d) row
              (zip (map KStr kws) (map entry_value (drop i vs))))"
proof (induction kws arbitrary: i row)
  case Nil
  then show ?case by simp
next
  case (Cons keyword rest)
  show ?case
  proof (cases "i < length vs")
    case True
    with Cons.prems have "is_dict (vs ! i)" by (simp add: list_all_length)
    then obtain e where e: "vs ! i = PDict e" by (cases "vs ! i") auto
    from True have dr: "drop i vs = vs ! i # drop (i + 1) vs"
      by (simp add: Cons_nth_drop_Suc)
    from True e Cons.IH[OF Cons.prems, of "i + 1" "dset row keyword (get_default e ''value'' (PInt 0))"]
    show ?thesis by (simp add: bind_exn_def dr dset_def)
  next
    case False
    with Cons.IH[OF Cons.prems, of "i + 1" row] show ?thesis
      by (simp add: bind_exn_def)
  qed
qed

lemma zip_values_row:
  "list_all is_dict vs \<Longrightarrow> zip_values (PList vs) 0 kws [] = Inr (spec_row kws vs)"
  by (simp add: zip_values_foldl spec_row_def py_dict_def)

lemma point_shape_get:
  assumes "point_shape p"
  shows "\<exists>d. p = PDict d \<and>
           get_default d ''date'' (PStr []) = PStr (point_date p) \<and>
           get_default d ''values'' (PList []) = PList (point_values p) \<and>
           list_all is_dict (point_values p)"
proof (cases p)
  case (PDict d)
  from assms PDict have date: "get_default d ''date'' (PStr []) = PStr (point_date p)"
    by (cases "dget d ''date''") (auto simp: get_default_def split: pyval.splits)
  from assms PDict have vals: "get_default d ''values'' (PList []) = PList (point_values p)
      \<and> list_all is_dict (point_values p)"
    by (cases "dget d ''values''") (auto simp: get_default_def split: pyval.splits)
  from PDict date vals show ?thesis by simp
qed (use assms in simp_all)

lemma timeline_loop_foldl:
  "list_all point_shape points \<Longrightarrow>
     timeline_loop kws points iot =
       Inr (foldl (\<lambda>d (k, v). dict_update k v d) iot
              (map (\<lambda>p. (KStr (point_date p), PDict (spec_row kws (point_values p))))
                 (filter (\<lambda>p. point_date p \<noteq> [] \<and> point_values p \<noteq> []) points)))"
proof (induction points arbitrary: iot)
  case Nil
  then show ?case by simp
next
  case (Cons p rest)
  from Cons.prems have "point_shape p" and rest: "list_all point_shape rest" by simp_all
  from point_shape_get[OF this(1)] obtain d where
    p: "p = PDict d" and
    date: "get_default d ''date'' (PStr []) = PStr (point_date p)" and
    vals: "get_default d ''values'' (PList []) = PList (point_values p)" and
    dicts: "list_all is_dict (point_values p)"
    by blast
  show ?case
  proof (cases "point_date p \<noteq> [] \<and> point_values p \<noteq> []")
    case True
    with Cons.IH[OF rest, of "dict_update (KStr (point_date p))
           (PDict (spec_row kws (point_values p))) iot"]
    show ?thesis
      using date vals zip_values_row[OF dicts, of kws]
      by (simp add: p bind_exn_def del: point_date.simps point_values.simps)
  next
    case False
    with Cons.IH[OF rest, of iot] show ?thesis
      using date vals
      by (auto simp: p bind_exn_def simp del: point_date.simps point_values.simps)
  qed
qed

lemma copy_related_foldl:
  "copy_related (PDict src) kws out =
     Inr (foldl (\<lambda>d (k, v). dict_update k v d) out
            (concat (map (\<lambda>k. case dget src k of Some v \<Rightarrow> [(KStr k, v)] | None \<Rightarrow> [])
                       kws)))"
proof (induction kws arbitrary: out)
  case Nil
  then show ?case by simp
next
  case (Cons keyword rest)
  show ?case
  proof (cases "dget src keyword")
    case None
    with Cons.IH[of out] show ?thesis by (simp add: bind_exn_def has_key_def)
  next
    case (Some v)
    with Cons.IH[of "dset out keyword v"] show ?thesis
      by (simp add: bind_exn_def has_key_def dset_def)
  qed
qed

lemma concat_empty: "concat (map (\<lambda>k. []) xs) = []"
  by (induction xs) simp_all

lemma related_of_spec:
  "response_related results field = Some src \<Longrightarrow>
     related_of results field kws = Inr (spec_related src kws)"
proof (cases "dget results field")
  case None
  assume "response_related results field = Some src"
  with None have "src = []" by (simp add: response_related_def)
  with None show ?thesis
    by (simp add: related_of_def spec_related_def py_dict_def dget_map_of concat_empty)
next
  case (Some v)
  assume "response_related results field = Some src"
  with Some have "v = PDict src" by (cases v) (simp_all add: response_related_def)
  with Some show ?thesis
    by (simp add: related_of_def copy_related_foldl spec_related_def py_dict_def)
qed

lemma timeline_of_spec:
  assumes "response_timeline results = Some points" and "list_all point_shape points"
  shows "(case dget results ''interest_over_time'' of
            Some iot \<Rightarrow>
              bind_exn (py_get iot ''timeline_data'' (PList [])) (\<lambda>timeline.
              bind_exn (py_iter timeline) (\<lambda>points. timeline_loop kws points []))
          | None \<Rightarrow> Inr []) = Inr (spec_interest kws points)"
proof (cases "dget results ''interest_over_time''")
  case None
  with assms(1) have "points = []" by (simp add: response_timeline_def)
  with None show ?thesis by (simp add: spec_interest_def py_dict_def)
next
  case (Some v)
  with assms(1) obtain iot where v: "v = PDict iot"
    and l: "list_of (dget iot ''timeline_data'') = Some points"
    by (cases v) (simp_all add: response_timeline_def)
  from list_of_iter[OF l] obtain timeline where
    "get_default iot ''timeline_data'' (PList []) = timeline" "py_iter timeline = Inr points"
    by blast
  with Some v timeline_loop_foldl[OF assms(2), of kws "[]"] show ?thesis
    by (simp add: bind_exn_def spec_interest_def py_dict_def)
qed

text \<open>
  Claim C9. For a keyword list and a response of the documented shape, normalization
  builds \<open>interest_over_time\<close> as the mapping from each date that has a date string and a
  non-empty value list to the row that zips the value list against the keyword list by
  position (keywords beyond the values get no entry), and \<open>related_topics\<close> and
  \<open>related_queries\<close> as the entries of the response's sub-mappings for the keywords that
  these have, copied unchanged.
\<close>

theorem normalize_interest_zips:
  assumes timeline: "response_timeline results = Some points"
      and shapes: "list_all point_shape points"
      and topics: "response_related results ''related_topics'' = Some topics"
      and queries: "response_related results ''related_queries'' = Some queries"
  shows "normalize_interest self kwv ks region_code region_name stamp results =
           Inr [(KStr ''region_name'', region_name),
                (KStr ''region_code'', region_code),
                (KStr ''collection_time'', stamp),
                (KStr ''keywords'', kwv),
                (KStr ''timeframe'', get_default (config self) ''timeframe'' (PStr ''today 3-m'')),
                (KStr ''interest_over_time'', PDict (spec_interest ks points)),
                (KStr ''related_topics'', PDict (spec_related topics ks)),
                (KStr ''related_queries'', PDict (spec_related queries ks)),
                (KStr ''source'', source_name)]"
proof -
  note iot = timeline_of_spec[OF timeline shapes, of ks]
  show ?thesis
    unfolding normalize_interest_def iot related_of_spec[OF topics] related_of_spec[OF queries]
    by (simp add: bind_exn_def)
qed

theorem normalize_interest_zips_witness:
  "normalize_interest (example_collector 2) (PList [PStr ''python'', PStr ''rust''])
       [''python'', ''rust''] (PStr ''PL'') (PStr ''Poland'') (PStr ''2024-01-01T00:00:00'')
       example_interest =
     Inr [(KStr ''region_name'', PStr ''Poland''),
          (KStr ''region_code'', PStr ''PL''),
          (KStr ''collection_time'', PStr ''2024-01-01T00:00:00''),
          (KStr ''keywords'', PList [PStr ''python'', PStr ''rust'']),
          (KStr ''timeframe'', PStr ''today 3-m''),
          (KStr ''interest_over_time'', PDict
             [(KStr ''Jan 1'', PDict [(KStr ''python'', PInt 80), (KStr ''rust'', PInt 35)]),
              (KStr ''Jan 3'', PDict [(KStr ''python'', PInt 75)])]),
          (KStr ''related_topics'', PDict
             [(KStr ''rust'', PDict [(KStr ''rising'', PList [PStr ''cargo''])])]),
          (KStr ''related_queries'', PDict []),
          (KStr ''source'', PStr ''SerpAPI Google Trends'')]"
proof -
  let ?points = "[PDict [(KStr ''date'', PStr ''Jan 1''),
                   (KStr ''values'', PList [PDict [(KStr ''query'', PStr ''python''), (KStr ''value'', PInt 80)],
                                           PDict [(KStr ''query'', PStr ''rust''), (KStr ''value'', PInt 35)]])],
            PDict [(KStr ''date'', PStr ''Jan 2''), (KStr ''values'', PList [])],
            PDict [(KStr ''date'', PStr ''Jan 3''),
                   (KStr ''values'', PList [PDict [(KStr ''query'', PStr ''python''), (KStr ''value'', PInt 75)]])]]"
  let ?topics = "[(KStr ''rust'', PDict [(KStr ''rising'', PList [PStr ''cargo''])]),
         (KStr ''go'', PDict [(KStr ''rising'', PList [])])]"
  have timeline: "response_timeline example_interest = Some ?points"
    by (simp add: response_timeline_def example_interest_def dget_map_of)
  have shapes: "list_all point_shape ?points"
    by (simp add: dget_map_of)
  have topics: "response_related example_interest ''related_topics'' = Some ?topics"
    by (simp add: response_related_def example_interest_def dget_map_of)
  have queries: "response_related example_interest ''related_queries'' = Some []"
    by (simp add: response_related_def example_interest_def dget_map_of)
  have i: "spec_interest [''python'', ''rust''] ?points =
             [(KStr ''Jan 1'', PDict [(KStr ''python'', PInt 80), (KStr ''rust'', PInt 35)]),
              (KStr ''Jan 3'', PDict [(KStr ''python'', PInt 75)])]"
    by (simp add: spec_interest_def spec_row_def py_dict_def dget_map_of get_default_def
          key_eq_str)
  have t: "spec_related ?topics [''python'', ''rust''] =
             [(KStr ''rust'', PDict [(KStr ''rising'', PList [PStr ''cargo''])])]"
    by (simp add: spec_related_def py_dict_def dget_map_of key_eq_str)
  have q: "spec_related [] [''python'', ''rust''] = []"
    by (simp add: spec_related_def py_dict_def dget_map_of key_eq_str)
  from normalize_interest_zips[OF timeline shapes topics queries,
         of "example_collector 2" "PList [PStr ''python'', PStr ''rust'']" "[''python'', ''rust'']"
            "PStr ''PL''" "PStr ''Poland''" "PStr ''2024-01-01T00:00:00''"]
  show ?thesis
    by (simp only: i t q)
       (simp add: example_collector_def get_default_def dget_map_of source_name_def)
qed

text \<open>The normalization within \<open>collect_interest_over_time\<close>, for a list of keyword
  strings and a region code that is a string.\<close>

lemma str_items_strings: "str_items i (map PStr ks) = Inr ks"
  by (induction ks arbitrary: i) (simp_all add: bind_exn_def)

lemma keyword_strings_list: "keyword_strings (PList (map PStr ks)) = Inr ks"
  by (simp add: keyword_strings_def str_items_strings)

lemma geo_code_of_string: "geo_code_of (PStr rc) = Inr (PStr rc)"
  by (auto simp: geo_code_of_def geo_mapping_def bind_exn_def key_eq_str)

lemma collect_interest_over_time_result:
  assumes "get_dict ev (clock w) (interest_params self ks (PStr rc)) = Inr results"
  shows "fst (collect_interest_over_time ev self (PList (map PStr ks)) (PStr rc) region_name w) =
           (case normalize_interest self (PList (map PStr ks)) ks (PStr rc) region_name
                   (now_iso ev w) results of
              Inr interest_data \<Rightarrow> interest_data
            | Inl e \<Rightarrow>
                [(KStr ''region_name'', region_name),
                 (KStr ''region_code'', PStr rc),
                 (KStr ''error'', PStr (py_str_exn e)),
                 (KStr ''collection_time'', now_iso ev w),
                 (KStr ''source'', source_name)])"
  using assms
  by (simp add: collect_interest_over_time_def interest_try_def keyword_strings_list
        geo_code_of_string bind_exn_def Let_def now_iso_def split: sum.splits)

section \<open>Keys and file names that are not strings\<close>

text \<open>Numeric keys are compared by value, and the entry keeps the key it was made with.\<close>

lemma numeric_keys_by_value:
  "dict_update (KBool True) v [(KInt 1, u)] = [(KInt 1, v)]"
  "dict_lookup [(KInt 1, u)] (KFloat 1) = Some u"
  "dict_lookup [(KInt 1, u)] (KStr ''1'') = None"
  by (simp_all add: key_eq_def)

lemma iteration_gives_the_keys:
  "py_iter (PDict [(KInt 1, PNone), (KStr ''a'', PNone), (KBool False, PNone)]) =
     Inr [PInt 1, PStr ''a'', PBool False]"
  by simp

text \<open>
  With an integer as the file name, the full data are written through that descriptor
  when it opens; then \<open>filename.replace\<close> raises, since an integer has no such method.
\<close>

lemma save_to_json_descriptor:
  assumes "0 \<le> fd" and "opens_fd ev fd = None" and "create_simple_format data = Inr simple"
  shows "save_to_json ev self data (PInt fd) w =
           (Inl (Exn AttributeError
                  (quoted ''int'' @ '' object has no attribute '' @ quoted ''replace'')),
            w\<lparr>fd_written := fd_written w @ [(fd, PDict data)]\<rparr>)"
  using assms by (simp add: save_to_json_def write_fd_def)

end
